theory Spec2Isabelle
  imports Main
begin

section \<open>Python values used by the services\<close>

text \<open>
  The services read their inputs from dictionaries decoded from the registry's JSON. A
  dictionary entry is in one of three states, which the code tells apart: the key is
  missing, the key is there with the value \<^verbatim>\<open>None\<close> (JSON \<^verbatim>\<open>null\<close>), or the key is there
  with a value of the type the registry documents for it. A payload is a record with one
  such entry for each key the code reads; other keys are never looked at.

  A Python \<^verbatim>\<open>str\<close> is modelled by \<^typ>\<open>string\<close>, one \<^typ>\<open>char\<close> for each code point, so the
  model covers text whose code points are below 256 (Latin-1, which holds the Spanish
  alphabet). The letter o with acute accent is \<open>CHR 0xF3\<close>.
\<close>

datatype 'a field = Missing | Null | Val 'a

text \<open>\<^verbatim>\<open>d.get(k)\<close>: the value, or \<^verbatim>\<open>None\<close> when the key is missing or holds \<^verbatim>\<open>None\<close>.\<close>

fun dict_get :: "'a field \<Rightarrow> 'a option" where
  "dict_get Missing = None"
| "dict_get Null = None"
| "dict_get (Val v) = Some v"

text \<open>\<^verbatim>\<open>d.get(k, default)\<close>: the default only replaces a missing key, not a stored \<^verbatim>\<open>None\<close>.\<close>

fun dict_get_default :: "'a field \<Rightarrow> 'a \<Rightarrow> 'a option" where
  "dict_get_default Missing dflt = Some dflt"
| "dict_get_default Null dflt = None"
| "dict_get_default (Val v) dflt = Some v"

text \<open>\<^verbatim>\<open>k in d\<close>.\<close>

fun has_key :: "'a field \<Rightarrow> bool" where
  "has_key Missing = False"
| "has_key Null = True"
| "has_key (Val v) = True"

text \<open>Truth value of an optional string: \<^verbatim>\<open>None\<close> and the empty string are false.\<close>

fun truthy :: "string option \<Rightarrow> bool" where
  "truthy None = False"
| "truthy (Some s) = (s \<noteq> [])"

datatype pyerror =
    ValueError
  | TypeError
  | AttributeError
  | IntegrityError
  | OverflowError
  | Exception string

section \<open>Dates\<close>

text \<open>
  A \<^verbatim>\<open>datetime\<close> value. \<open>dt_utcoffset\<close> is \<open>None\<close> for a naive value and the offset in
  seconds for an aware one.
\<close>

record datetime =
  dt_year :: nat
  dt_month :: nat
  dt_day :: nat
  dt_hour :: nat
  dt_minute :: nat
  dt_second :: nat
  dt_microsecond :: nat
  dt_utcoffset :: "int option"

definition midnight :: "nat \<Rightarrow> nat \<Rightarrow> nat \<Rightarrow> datetime" where
  "midnight y m d =
     \<lparr>dt_year = y, dt_month = m, dt_day = d, dt_hour = 0, dt_minute = 0, dt_second = 0,
      dt_microsecond = 0, dt_utcoffset = None\<rparr>"

definition is_digit :: "char \<Rightarrow> bool" where
  "is_digit c = (48 \<le> (of_char c :: nat) \<and> (of_char c :: nat) \<le> 57)"

definition is_nonzero_digit :: "char \<Rightarrow> bool" where
  "is_nonzero_digit c = (49 \<le> (of_char c :: nat) \<and> (of_char c :: nat) \<le> 57)"

definition digit_val :: "char \<Rightarrow> nat" where
  "digit_val c = (of_char c :: nat) - 48"

definition is_leap :: "nat \<Rightarrow> bool" where
  "is_leap y = (y mod 4 = 0 \<and> (y mod 100 \<noteq> 0 \<or> y mod 400 = 0))"

definition days_in_month :: "nat \<Rightarrow> nat \<Rightarrow> nat" where
  "days_in_month y m =
     (if m = 2 then (if is_leap y then 29 else 28)
      else if m = 4 \<or> m = 6 \<or> m = 9 \<or> m = 11 then 30 else 31)"

text \<open>
  \<^verbatim>\<open>datetime.strptime(s, '%Y-%m-%d')\<close>, with \<open>None\<close> for the \<^verbatim>\<open>ValueError\<close> it raises. The
  library turns the format into the regular expression
  \<^verbatim>\<open>(\d\d\d\d)-(1[0-2]|0[1-9]|[1-9])-(3[0-1]|[1-2]\d|0[1-9]|[1-9]| [1-9])\<close>, matches it at the
  start of the string, fails when text remains after the match, and then builds the date,
  which fails for year 0 and for a day the month does not have.
\<close>

fun match_month :: "string \<Rightarrow> (nat \<times> string) option" where
  "match_month (a # b # c # r) =
     (if c = CHR ''-'' \<and>
         ((a = CHR ''1'' \<and> (b = CHR ''0'' \<or> b = CHR ''1'' \<or> b = CHR ''2''))
          \<or> (a = CHR ''0'' \<and> is_nonzero_digit b))
      then Some (10 * digit_val a + digit_val b, r)
      else if b = CHR ''-'' \<and> is_nonzero_digit a then Some (digit_val a, c # r)
      else None)"
| "match_month [a, b] =
     (if b = CHR ''-'' \<and> is_nonzero_digit a then Some (digit_val a, []) else None)"
| "match_month [a] = None"
| "match_month [] = None"

fun match_day :: "string \<Rightarrow> (nat \<times> string) option" where
  "match_day (a # b # r) =
     (if a = CHR ''3'' \<and> (b = CHR ''0'' \<or> b = CHR ''1'') then Some (30 + digit_val b, r)
      else if (a = CHR ''1'' \<or> a = CHR ''2'') \<and> is_digit b
        then Some (10 * digit_val a + digit_val b, r)
      else if a = CHR ''0'' \<and> is_nonzero_digit b then Some (digit_val b, r)
      else if is_nonzero_digit a then Some (digit_val a, b # r)
      else if a = CHR '' '' \<and> is_nonzero_digit b then Some (digit_val b, r)
      else None)"
| "match_day [a] = (if is_nonzero_digit a then Some (digit_val a, []) else None)"
| "match_day [] = None"

fun strptime_ymd :: "string \<Rightarrow> datetime option" where
  "strptime_ymd (y1 # y2 # y3 # y4 # dash # rest) =
     (if is_digit y1 \<and> is_digit y2 \<and> is_digit y3 \<and> is_digit y4 \<and> dash = CHR ''-'' then
        (case match_month rest of
           None \<Rightarrow> None
         | Some (m, rest') \<Rightarrow>
             (case match_day rest' of
                None \<Rightarrow> None
              | Some (d, remaining) \<Rightarrow>
                  (let y = 1000 * digit_val y1 + 100 * digit_val y2 + 10 * digit_val y3
                           + digit_val y4
                   in if remaining = [] \<and> 1 \<le> y \<and> d \<le> days_in_month y m
                      then Some (midnight y m d) else None)))
      else None)"
| "strptime_ymd s = None"

text \<open>\<^verbatim>\<open>s.split(sep)\<close> for a separator of one character; the result is never empty.\<close>

fun split_char :: "char \<Rightarrow> string \<Rightarrow> string list" where
  "split_char sep [] = [[]]"
| "split_char sep (c # cs) =
     (if c = sep then [] # split_char sep cs
      else (case split_char sep cs of
              [] \<Rightarrow> [[c]]
            | w # ws \<Rightarrow> (c # w) # ws))"

text \<open>
  \<^verbatim>\<open>DatabaseService.parse_date\<close>. \<open>fromiso\<close> stands for \<^verbatim>\<open>datetime.fromisoformat\<close>, whose
  accepted formats depend on the version of Python; \<open>None\<close> is the \<^verbatim>\<open>ValueError\<close> it
  raises on a string it rejects. The \<^verbatim>\<open>IndexError\<close> handler of the second attempt is
  the \<open>[]\<close> case, which \<open>split_char\<close> never produces.
\<close>

definition parse_date :: "(string \<Rightarrow> datetime option) \<Rightarrow> string option \<Rightarrow> datetime option" where
  "parse_date fromiso date_str =
     (if \<not> truthy date_str then None
      else (case date_str of
              None \<Rightarrow> None
            | Some s \<Rightarrow>
               (case strptime_ymd s of
                  Some d \<Rightarrow> Some d
                | None \<Rightarrow>
                   (case (case split_char (CHR ''T'') s of
                            [] \<Rightarrow> None
                          | w # ws \<Rightarrow> strptime_ymd w) of
                      Some d \<Rightarrow> Some d
                    | None \<Rightarrow>
                       (case fromiso s of
                          Some d \<Rightarrow> Some d
                        | None \<Rightarrow> None)))))"

subsection \<open>Dates written out, to state what the parser accepts\<close>

definition digit_char :: "nat \<Rightarrow> char" where
  "digit_char n = ''0123456789'' ! n"

text \<open>The text \<^verbatim>\<open>YYYY-MM-DD\<close> of a date, zero padded.\<close>

definition iso_date :: "nat \<Rightarrow> nat \<Rightarrow> nat \<Rightarrow> string" where
  "iso_date y m d =
     [digit_char (y div 1000), digit_char (y div 100 mod 10), digit_char (y div 10 mod 10),
      digit_char (y mod 10), CHR ''-'', digit_char (m div 10), digit_char (m mod 10),
      CHR ''-'', digit_char (d div 10), digit_char (d mod 10)]"

definition valid_date :: "nat \<Rightarrow> nat \<Rightarrow> nat \<Rightarrow> bool" where
  "valid_date y m d =
     (1 \<le> y \<and> y \<le> 9999 \<and> 1 \<le> m \<and> m \<le> 12 \<and> 1 \<le> d \<and> d \<le> days_in_month y m)"

section \<open>Strings\<close>

abbreviation a_acute :: char where "a_acute \<equiv> CHR 0xE1"
abbreviation e_acute :: char where "e_acute \<equiv> CHR 0xE9"
abbreviation i_acute :: char where "i_acute \<equiv> CHR 0xED"
abbreviation o_acute :: char where "o_acute \<equiv> CHR 0xF3"
abbreviation u_acute :: char where "u_acute \<equiv> CHR 0xFA"
abbreviation newline :: char where "newline \<equiv> CHR 0x0A"

text \<open>
  \<^verbatim>\<open>str.lower()\<close> on Latin-1 text: the letters \<^verbatim>\<open>A\<close> to \<^verbatim>\<open>Z\<close> and the accented capitals
  \<open>0xC0\<close> to \<open>0xDE\<close> (without the multiplication sign \<open>0xD7\<close>) move up by 32, which sets
  the bit of weight 32; every other character stays.
\<close>

definition is_upper :: "char \<Rightarrow> bool" where
  "is_upper c =
     ((65 \<le> (of_char c :: nat) \<and> (of_char c :: nat) \<le> 90)
      \<or> (192 \<le> (of_char c :: nat) \<and> (of_char c :: nat) \<le> 222 \<and> (of_char c :: nat) \<noteq> 215))"

fun lower_char :: "char \<Rightarrow> char" where
  "lower_char (Char b0 b1 b2 b3 b4 b5 b6 b7) =
     (if is_upper (Char b0 b1 b2 b3 b4 b5 b6 b7) then Char b0 b1 b2 b3 b4 True b6 b7
      else Char b0 b1 b2 b3 b4 b5 b6 b7)"

definition py_lower :: "string \<Rightarrow> string" where
  "py_lower s = map lower_char s"

text \<open>\<^verbatim>\<open>p in s\<close> on strings: \<open>p\<close> occurs in \<open>s\<close> as a contiguous piece.\<close>

fun starts_with :: "string \<Rightarrow> string \<Rightarrow> bool" where
  "starts_with [] s = True"
| "starts_with (p # ps) [] = False"
| "starts_with (p # ps) (c # cs) = (p = c \<and> starts_with ps cs)"

fun py_in :: "string \<Rightarrow> string \<Rightarrow> bool" where
  "py_in p [] = (p = [])"
| "py_in p (c # cs) = (starts_with p (c # cs) \<or> py_in p cs)"

text \<open>\<^verbatim>\<open>str.strip()\<close>: the white space of Latin-1 is removed at both ends.\<close>

definition is_space :: "char \<Rightarrow> bool" where
  "is_space c =
     ((9 \<le> (of_char c :: nat) \<and> (of_char c :: nat) \<le> 13)
      \<or> (28 \<le> (of_char c :: nat) \<and> (of_char c :: nat) \<le> 32)
      \<or> (of_char c :: nat) = 133 \<or> (of_char c :: nat) = 160)"

definition py_strip :: "string \<Rightarrow> string" where
  "py_strip s = rev (dropWhile is_space (rev (dropWhile is_space s)))"

text \<open>\<^verbatim>\<open>sep.join(xs)\<close> for a list of strings.\<close>

fun py_join :: "string \<Rightarrow> string list \<Rightarrow> string" where
  "py_join sep [] = []"
| "py_join sep [x] = x"
| "py_join sep (x # y # ys) = x @ sep @ py_join sep (y # ys)"

text \<open>An optional string inside an f-string: \<^verbatim>\<open>None\<close> is printed as the word \<^verbatim>\<open>None\<close>.\<close>

fun py_format :: "string option \<Rightarrow> string" where
  "py_format None = ''None''"
| "py_format (Some s) = s"

section \<open>The registry's records\<close>

text \<open>One procedural action as the registry returns it (\<^verbatim>\<open>act_data\<close>, \<^verbatim>\<open>actuacion\<close>).\<close>

record actuacion_dict =
  a_idRegActuacion :: "string field"
  a_consActuacion :: "int field"
  a_fechaActuacion :: "string field"
  a_actuacion :: "string field"
  a_anotacion :: "string field"
  a_fechaInicial :: "string field"
  a_fechaFinal :: "string field"
  a_fechaRegistro :: "string field"
  a_conDocumentos :: "bool field"

text \<open>The detail record of a process (\<^verbatim>\<open>detalle\<close>, \<^verbatim>\<open>detalle_proceso\<close>).\<close>

record detalle_dict =
  d_llaveProceso :: "string field"
  d_despacho :: "string field"
  d_claseProceso :: "string field"
  d_tipoProceso :: "string field"
  d_subTipoProceso :: "string field"
  d_ubicacionExpediente :: "string field"
  d_esPrivado :: "bool field"
  d_demandantes :: "string list field"
  d_demandados :: "string list field"

text \<open>A classification, the dictionary with the four keys the classifier returns.\<close>

record clasificacion_dict =
  c_nivel_urgencia :: "string field"
  c_tipo_actuacion :: "string field"
  c_requiere_accion :: "bool field"
  c_justificacion :: "string field"

section \<open>Classification and summary (\<^verbatim>\<open>AIGenerativeService\<close>)\<close>

definition clasificacion_audiencia :: clasificacion_dict where
  "clasificacion_audiencia =
     \<lparr>c_nivel_urgencia = Val ''Urgente'', c_tipo_actuacion = Val ''Audiencia'',
      c_requiere_accion = Val True,
      c_justificacion = Val (''Las audiencias requieren preparaci'' @ [o_acute]
        @ ''n y asistencia obligatoria.'')\<rparr>"

definition clasificacion_requerimiento :: clasificacion_dict where
  "clasificacion_requerimiento =
     \<lparr>c_nivel_urgencia = Val ''Alta'', c_tipo_actuacion = Val ''Requerimiento'',
      c_requiere_accion = Val True,
      c_justificacion = Val ''Existe un plazo definido para responder al requerimiento.''\<rparr>"

definition clasificacion_notificacion :: clasificacion_dict where
  "clasificacion_notificacion =
     \<lparr>c_nivel_urgencia = Val ''Normal'',
      c_tipo_actuacion = Val (''Notificaci'' @ [o_acute] @ ''n''),
      c_requiere_accion = Val False,
      c_justificacion = Val (''Es una notificaci'' @ [o_acute]
        @ ''n informativa que no requiere acci'' @ [o_acute] @ ''n inmediata.'')\<rparr>"

definition clasificacion_tramite :: clasificacion_dict where
  "clasificacion_tramite =
     \<lparr>c_nivel_urgencia = Val ''Baja'', c_tipo_actuacion = Val (''Tr'' @ [a_acute] @ ''mite''),
      c_requiere_accion = Val False,
      c_justificacion = Val (''Actuaci'' @ [o_acute] @ ''n de tr'' @ [a_acute]
        @ ''mite regular sin plazos cr'' @ [i_acute] @ ''ticos asociados.'')\<rparr>"

definition palabras_audiencia :: "string list" where
  "palabras_audiencia = [''audiencia'', ''citaci'' @ [o_acute] @ ''n'', ''comparecencia'']"

definition palabras_requerimiento :: "string list" where
  "palabras_requerimiento = [''requerimiento'', ''solicitud'', ''plazo'']"

definition palabras_notificacion :: "string list" where
  "palabras_notificacion =
     [''notificaci'' @ [o_acute] @ ''n'', ''aviso'', ''comunicaci'' @ [o_acute] @ ''n'']"

text \<open>
  \<^verbatim>\<open>_clasificar_actuacion_simulada\<close>. \<^verbatim>\<open>actuacion.get('actuacion', '')\<close> is \<^verbatim>\<open>None\<close> when the
  key holds \<^verbatim>\<open>None\<close>, and \<^verbatim>\<open>None.lower()\<close> raises \<^verbatim>\<open>AttributeError\<close>.
\<close>

definition clasificar_actuacion_simulada :: "actuacion_dict \<Rightarrow> pyerror + clasificacion_dict" where
  "clasificar_actuacion_simulada actuacion =
     (case dict_get_default (a_actuacion actuacion) [] of
        None \<Rightarrow> Inl AttributeError
      | Some label \<Rightarrow>
         (let texto_actuacion = py_lower label in
          if list_ex (\<lambda>palabra. py_in palabra texto_actuacion) palabras_audiencia
            then Inr clasificacion_audiencia
          else if list_ex (\<lambda>palabra. py_in palabra texto_actuacion) palabras_requerimiento
            then Inr clasificacion_requerimiento
          else if list_ex (\<lambda>palabra. py_in palabra texto_actuacion) palabras_notificacion
            then Inr clasificacion_notificacion
          else Inr clasificacion_tramite))"

text \<open>
  The service object. \<^verbatim>\<open>__init__\<close> sets \<^verbatim>\<open>use_simulation = True\<close> whatever the model's
  name, and builds the chat model only otherwise.
\<close>

record ai_service =
  model_name :: string
  use_simulation :: bool

definition init_ai_service :: "string \<Rightarrow> ai_service" where
  "init_ai_service name = \<lparr>model_name = name, use_simulation = True\<rparr>"

definition clasificacion_por_defecto :: clasificacion_dict where
  "clasificacion_por_defecto =
     \<lparr>c_nivel_urgencia = Val ''Normal'', c_tipo_actuacion = Val ''No clasificada'',
      c_requiere_accion = Val False,
      c_justificacion = Val (''No se pudo determinar autom'' @ [a_acute] @ ''ticamente.'')\<rparr>"

text \<open>
  \<^verbatim>\<open>clasificar_actuacion\<close>. The branch for the language model is given by \<open>modelo\<close>: the
  reply of the chat model and the JSON decoding of its braces, with \<open>Inl\<close> for any
  exception on the way, which the two handlers turn into the default classification.
\<close>

definition clasificar_actuacion ::
  "ai_service \<Rightarrow> (actuacion_dict \<Rightarrow> pyerror + clasificacion_dict) \<Rightarrow> actuacion_dict
     \<Rightarrow> pyerror + clasificacion_dict" where
  "clasificar_actuacion self modelo actuacion =
     (if use_simulation self then clasificar_actuacion_simulada actuacion
      else (case modelo actuacion of
              Inr clasificacion_json \<Rightarrow> Inr clasificacion_json
            | Inl e \<Rightarrow> Inr clasificacion_por_defecto))"

text \<open>
  \<^verbatim>\<open>_generar_resumen_simulado\<close>. \<^verbatim>\<open>", ".join\<close> of \<^verbatim>\<open>None\<close> raises \<^verbatim>\<open>TypeError\<close>. The f-string
  starts and ends with a line break and eight spaces, which \<^verbatim>\<open>strip()\<close> removes. The list
  of actions is a parameter the body never reads.
\<close>

definition no_especificado :: string where
  "no_especificado = ''No especificado''"

definition join_names :: "string list field \<Rightarrow> pyerror + string" where
  "join_names names =
     (case dict_get_default names [no_especificado] of
        None \<Rightarrow> Inl TypeError
      | Some xs \<Rightarrow> Inr (py_join '', '' xs))"

definition resumen_plantilla :: "string \<Rightarrow> string \<Rightarrow> string \<Rightarrow> string \<Rightarrow> string" where
  "resumen_plantilla radicado despacho demandantes demandados =
     [newline] @ ''        El proceso judicial con radicado '' @ radicado
     @ '' se encuentra actualmente en curso en el despacho '' @ despacho
     @ ''. Este proceso involucra a '' @ demandantes
     @ '' como parte demandante y a '' @ demandados
     @ '' como parte demandada.'' @ [newline, newline] @ ''        Seg'' @ [u_acute]
     @ ''n las actuaciones recientes, el proceso ha tenido avances ''
     @ ''significativos en los '' @ [u_acute]
     @ ''ltimos meses. Se han registrado notificaciones importantes y se ''
     @ ''han cumplido los t'' @ [e_acute]
     @ ''rminos procesales establecidos. Las actuaciones m'' @ [a_acute]
     @ ''s recientes sugieren que el proceso est'' @ [a_acute]
     @ '' siguiendo su curso normal dentro de los tiempos esperados para ''
     @ ''este tipo de casos.'' @ [newline, newline]
     @ ''        Es importante prestar atenci'' @ [o_acute] @ ''n a las pr'' @ [o_acute]
     @ ''ximas fechas de audiencia y a los requerimientos pendientes, ya ''
     @ ''que podr'' @ [i_acute]
     @ ''an ser determinantes para el desarrollo del proceso. Se ''
     @ ''recomienda mantener un seguimiento constante de las actuaciones ''
     @ ''futuras para asegurar el cumplimiento de todos los t'' @ [e_acute]
     @ ''rminos legales y evitar contratiempos procesales.'' @ [newline] @ ''        ''"

definition generar_resumen_simulado ::
  "detalle_dict \<Rightarrow> actuacion_dict list \<Rightarrow> pyerror + string" where
  "generar_resumen_simulado detalle_proceso actuaciones =
     (let radicado = dict_get_default (d_llaveProceso detalle_proceso) no_especificado;
          despacho = dict_get_default (d_despacho detalle_proceso) no_especificado
      in case join_names (d_demandantes detalle_proceso) of
           Inl e \<Rightarrow> Inl e
         | Inr demandantes \<Rightarrow>
            (case join_names (d_demandados detalle_proceso) of
               Inl e \<Rightarrow> Inl e
             | Inr demandados \<Rightarrow>
                Inr (py_strip (resumen_plantilla (py_format radicado) (py_format despacho)
                                 demandantes demandados))))"

text \<open>
  The text of the summary between the white space that \<^verbatim>\<open>strip()\<close> removes: three
  paragraphs, the first with the four interpolated values.
\<close>

definition resumen_texto :: "string \<Rightarrow> string \<Rightarrow> string \<Rightarrow> string \<Rightarrow> string" where
  "resumen_texto radicado despacho demandantes demandados =
     ''El proceso judicial con radicado '' @ radicado
     @ '' se encuentra actualmente en curso en el despacho '' @ despacho
     @ ''. Este proceso involucra a '' @ demandantes
     @ '' como parte demandante y a '' @ demandados
     @ '' como parte demandada.'' @ [newline, newline] @ ''        Seg'' @ [u_acute]
     @ ''n las actuaciones recientes, el proceso ha tenido avances ''
     @ ''significativos en los '' @ [u_acute]
     @ ''ltimos meses. Se han registrado notificaciones importantes y se ''
     @ ''han cumplido los t'' @ [e_acute]
     @ ''rminos procesales establecidos. Las actuaciones m'' @ [a_acute]
     @ ''s recientes sugieren que el proceso est'' @ [a_acute]
     @ '' siguiendo su curso normal dentro de los tiempos esperados para ''
     @ ''este tipo de casos.'' @ [newline, newline]
     @ ''        Es importante prestar atenci'' @ [o_acute] @ ''n a las pr'' @ [o_acute]
     @ ''ximas fechas de audiencia y a los requerimientos pendientes, ya ''
     @ ''que podr'' @ [i_acute]
     @ ''an ser determinantes para el desarrollo del proceso. Se ''
     @ ''recomienda mantener un seguimiento constante de las actuaciones ''
     @ ''futuras para asegurar el cumplimiento de todos los t'' @ [e_acute]
     @ ''rminos legales y evitar contratiempos procesales.''"

section \<open>The registry client (\<^verbatim>\<open>JudicialAPIClient\<close>)\<close>

text \<open>
  What \<^verbatim>\<open>session.get\<close> followed by \<^verbatim>\<open>raise_for_status\<close> and \<^verbatim>\<open>json\<close> can do: give the
  decoded body, raise \<^verbatim>\<open>HTTPError\<close>, or raise another \<^verbatim>\<open>RequestException\<close>. An error
  carries its text \<^verbatim>\<open>str(e)\<close>; an \<^verbatim>\<open>HTTPError\<close> also carries the body of the reply, which
  is either a JSON object, of which only the entry \<^verbatim>\<open>Message\<close> is read, or anything
  else, for which the bare \<^verbatim>\<open>except\<close> leaves the error text as it is.
\<close>

datatype error_body = Unreadable | JsonObject "string field"

datatype 'j http_reply =
    Respuesta 'j
  | HTTPError string error_body
  | RequestException string

record consulta_params =
  q_nombre :: string
  q_tipoPersona :: string
  q_SoloActivos :: bool
  q_codificacionDespacho :: string
  q_pagina :: int

definition BASE_URL :: string where
  "BASE_URL = ''https://consultaprocesos.ramajudicial.gov.co:448/api/v2''"

text \<open>\<^verbatim>\<open>str(e)\<close> of a raised error.\<close>

fun error_str :: "pyerror \<Rightarrow> string" where
  "error_str (Exception msg) = msg"
| "error_str e = []"

definition make_request ::
  "(string \<Rightarrow> 'p \<Rightarrow> 'j http_reply) \<Rightarrow> string \<Rightarrow> 'p \<Rightarrow> pyerror + 'j" where
  "make_request session_get endpoint params =
     (let url = BASE_URL @ ''/'' @ endpoint in
      case session_get url params of
        Respuesta j \<Rightarrow> Inr j
      | HTTPError e body \<Rightarrow>
          (let error_msg =
             (case body of
                Unreadable \<Rightarrow> e
              | JsonObject message \<Rightarrow>
                  if has_key message then e @ '' - '' @ py_format (dict_get message) else e)
           in Inl (Exception (''Error en la consulta a la API: '' @ error_msg)))
      | RequestException e \<Rightarrow> Inl (Exception (''Error en la consulta a la API: '' @ e)))"

definition mas_de_mil_registros :: string where
  "mas_de_mil_registros =
     ''Hay m'' @ [a_acute] @ ''s de mil registros con los criterios especificados''"

definition consulta_demasiado_general :: string where
  "consulta_demasiado_general =
     ''La consulta es demasiado general. Por favor, especifique un c'' @ [o_acute]
     @ ''digo de despacho o un nombre m'' @ [a_acute] @ ''s espec'' @ [i_acute] @ ''fico.''"

definition consultar_por_razon_social ::
  "(string \<Rightarrow> consulta_params \<Rightarrow> 'j http_reply) \<Rightarrow> string \<Rightarrow> string \<Rightarrow> bool \<Rightarrow> string \<Rightarrow> int
     \<Rightarrow> pyerror + 'j" where
  "consultar_por_razon_social session_get nombre tipo_persona solo_activos
       codificacion_despacho pagina =
     (let endpoint = ''Procesos/Consulta/NombreRazonSocial'';
          params = \<lparr>q_nombre = nombre, q_tipoPersona = tipo_persona,
                    q_SoloActivos = solo_activos,
                    q_codificacionDespacho = codificacion_despacho, q_pagina = pagina\<rparr>
      in case make_request session_get endpoint params of
           Inr resultados \<Rightarrow> Inr resultados
         | Inl e \<Rightarrow>
             if py_in mas_de_mil_registros (error_str e)
             then Inl (Exception consulta_demasiado_general)
             else Inl e)"

text \<open>A registry that gives the same reply to every request.\<close>

definition respuesta_fija :: "'j http_reply \<Rightarrow> string \<Rightarrow> consulta_params \<Rightarrow> 'j http_reply" where
  "respuesta_fija r url params = r"

section \<open>The relational store\<close>

text \<open>
  The rows of the three tables the services write, with the columns of
  \<^verbatim>\<open>app.models.database\<close>. The primary key \<^verbatim>\<open>id\<close> of each table has its own name here; a
  nullable column is an option. The store is the list of rows of each table, in the
  order of insertion.
\<close>

record Empresa =
  emp_id :: nat
  nombre :: "string option"
  tipo_persona :: "string option"
  nit :: "string option"
  fecha_creacion :: "datetime option"

record Proceso =
  pro_id :: nat
  id_proceso_api :: "string option"
  llave_proceso :: "string option"
  fecha_proceso :: "datetime option"
  fecha_ultima_actuacion :: "datetime option"
  despacho :: "string option"
  departamento :: "string option"
  sujetos_procesales :: "string option"
  clase_proceso :: "string option"
  tipo_proceso :: "string option"
  subtipo_proceso :: "string option"
  ubicacion_expediente :: "string option"
  es_privado :: "bool option"
  demandantes :: "string option"
  demandados :: "string option"
  resumen_generado :: "string option"
  fecha_consulta :: "datetime option"
  empresa_id :: "nat option"

record Actuacion =
  act_id :: nat
  id_reg_actuacion :: "string option"
  cons_actuacion :: "int option"
  fecha_actuacion :: "datetime option"
  actuacion :: "string option"
  anotacion :: "string option"
  fecha_inicial :: "datetime option"
  fecha_final :: "datetime option"
  fecha_registro :: "datetime option"
  con_documentos :: "bool option"
  proceso_id :: "nat option"
  nivel_urgencia :: "string option"
  tipo_actuacion :: "string option"
  requiere_accion :: "bool option"
  justificacion :: "string option"

record database =
  empresas :: "Empresa list"
  procesos :: "Proceso list"
  actuaciones :: "Actuacion list"

text \<open>One process of a search result (\<^verbatim>\<open>datos_proceso\<close>) and the party hint (\<^verbatim>\<open>datos_empresa\<close>).\<close>

record proceso_dict =
  p_idProceso :: "string field"
  p_llaveProceso :: "string field"
  p_fechaProceso :: "string field"
  p_fechaUltimaActuacion :: "string field"
  p_despacho :: "string field"
  p_departamento :: "string field"
  p_sujetosProcesales :: "string field"

text \<open>
  The party hint has the three keys the code reads; \<open>e_otras_claves\<close> says whether the
  dictionary holds any key besides them.
\<close>

record empresa_dict =
  e_nombre :: "string field"
  e_tipo_persona :: "string field"
  e_nit :: "string field"
  e_otras_claves :: bool

text \<open>A dictionary is true when it has a key, whichever it is.\<close>

definition empresa_dict_truthy :: "empresa_dict \<Rightarrow> bool" where
  "empresa_dict_truthy d =
     (has_key (e_nombre d) \<or> has_key (e_tipo_persona d) \<or> has_key (e_nit d)
      \<or> e_otras_claves d)"

text \<open>The key the store gives a new row: one more than the largest key in the table.\<close>

definition next_id :: "nat list \<Rightarrow> nat" where
  "next_id ids = Suc (fold max ids 0)"

text \<open>
  At \<^verbatim>\<open>INSERT\<close>, a column that has a default and whose attribute is \<^verbatim>\<open>None\<close> is left out of
  the statement and gets the default.
\<close>

fun column_default :: "'a \<Rightarrow> 'a option \<Rightarrow> 'a option" where
  "column_default dflt None = Some dflt"
| "column_default dflt (Some v) = Some v"

text \<open>
  The \<^verbatim>\<open>unique=True\<close> constraint of a column, when rows with the keys \<open>new\<close> are inserted
  one after the other into a table that holds the keys \<open>stored\<close>: a key that is not
  \<^verbatim>\<open>NULL\<close> must be new. A violation makes \<^verbatim>\<open>commit\<close> raise \<^verbatim>\<open>IntegrityError\<close> and leaves
  the table as it was.
\<close>

fun unique_insert_ok :: "'k option list \<Rightarrow> 'k option list \<Rightarrow> bool" where
  "unique_insert_ok stored [] = True"
| "unique_insert_ok stored (k # new) =
     ((k = None \<or> k \<notin> set stored) \<and> unique_insert_ok (stored @ [k]) new)"

text \<open>
  A \<^verbatim>\<open>DateTime\<close> column of the SQLite store is written as the text of the date and
  the time of day, without the UTC offset, so the value read back after the commit is
  naive, also when the value written was aware.
\<close>

definition sqlite_datetime :: "datetime \<Rightarrow> datetime" where
  "sqlite_datetime d = d\<lparr>dt_utcoffset := None\<rparr>"

fun datetime_column :: "datetime option \<Rightarrow> datetime option" where
  "datetime_column None = None"
| "datetime_column (Some d) = Some (sqlite_datetime d)"

text \<open>
  An \<^verbatim>\<open>Integer\<close> column holds signed 64-bit values; binding a larger Python integer
  raises \<^verbatim>\<open>OverflowError\<close>.
\<close>

fun sqlite_integer_ok :: "int option \<Rightarrow> bool" where
  "sqlite_integer_ok None = True"
| "sqlite_integer_ok (Some n) = (- (2 ^ 63) \<le> n \<and> n < 2 ^ 63)"

text \<open>\<^verbatim>\<open>UPDATE\<close> of the row with the primary key of the changed object.\<close>

definition update_empresa :: "Empresa \<Rightarrow> Empresa list \<Rightarrow> Empresa list" where
  "update_empresa e rows = map (\<lambda>r. if emp_id r = emp_id e then e else r) rows"

definition update_proceso :: "Proceso \<Rightarrow> Proceso list \<Rightarrow> Proceso list" where
  "update_proceso p rows = map (\<lambda>r. if pro_id r = pro_id p then p else r) rows"

definition update_actuacion :: "Actuacion \<Rightarrow> Actuacion list \<Rightarrow> Actuacion list" where
  "update_actuacion a rows = map (\<lambda>r. if act_id r = act_id a then a else r) rows"

section \<open>The persistence coordinator (\<^verbatim>\<open>DatabaseService\<close>)\<close>

text \<open>
  Every function takes the store and returns it with its result. \<^verbatim>\<open>query(...).first()\<close> is
  \<open>find\<close> on the rows of the table; comparing a column with \<^verbatim>\<open>None\<close> selects the rows
  where it is \<^verbatim>\<open>NULL\<close>. \<open>now\<close> is the value \<^verbatim>\<open>datetime.now()\<close> gives where the code calls it. The
  session is created with \<^verbatim>\<open>autoflush=False\<close>: a query sees the committed rows only, and
  the objects added by \<^verbatim>\<open>db.add\<close> are inserted by \<^verbatim>\<open>db.commit\<close>, in the order they were
  added.
\<close>

text \<open>\<^verbatim>\<open>guardar_empresa\<close>.\<close>

definition guardar_empresa ::
  "datetime \<Rightarrow> database \<Rightarrow> empresa_dict \<Rightarrow> (pyerror + Empresa) \<times> database" where
  "guardar_empresa now db datos_empresa =
     (let nombre' = dict_get (e_nombre datos_empresa);
          nit' = dict_get (e_nit datos_empresa)
      in case (if truthy nit' then find (\<lambda>r. nit r = nit') (empresas db) else None) of
           Some empresa \<Rightarrow> (Inr empresa, db)
         | None \<Rightarrow>
            (case find (\<lambda>r. nombre r = nombre') (empresas db) of
               Some empresa \<Rightarrow>
                 if truthy nit' \<and> \<not> truthy (nit empresa)
                 then (let empresa' = empresa\<lparr>nit := nit'\<rparr>
                       in (Inr empresa',
                           db\<lparr>empresas := update_empresa empresa' (empresas db)\<rparr>))
                 else (Inr empresa, db)
             | None \<Rightarrow>
                 (let nueva_empresa =
                        \<lparr>emp_id = next_id (map emp_id (empresas db)),
                         nombre = nombre',
                         tipo_persona =
                           column_default ''jur''
                             (dict_get_default (e_tipo_persona datos_empresa) ''jur''),
                         nit = nit',
                         fecha_creacion = Some (sqlite_datetime now)\<rparr>
                  in if unique_insert_ok (map nit (empresas db)) [nit']
                     then (Inr nueva_empresa,
                           db\<lparr>empresas := empresas db @ [nueva_empresa]\<rparr>)
                     else (Inl IntegrityError, db))))"

text \<open>
  \<^verbatim>\<open>guardar_proceso\<close>. The clock is read twice on the way to a new row: \<open>now_empresa\<close>
  when the row of a new party is inserted, and \<open>now\<close> when the consultation date is set.
  The returned row is the one read back from the store after the commit.
\<close>

definition guardar_proceso ::
  "(string \<Rightarrow> datetime option) \<Rightarrow> datetime \<Rightarrow> datetime \<Rightarrow> database \<Rightarrow> proceso_dict
     \<Rightarrow> empresa_dict option \<Rightarrow> (pyerror + Proceso) \<times> database" where
  "guardar_proceso fromiso now_empresa now db datos_proceso datos_empresa =
     (let id_proceso_api' = dict_get (p_idProceso datos_proceso)
      in case find (\<lambda>r. id_proceso_api r = id_proceso_api') (procesos db) of
           Some proceso_existente \<Rightarrow>
             (let fecha = parse_date fromiso (dict_get (p_fechaUltimaActuacion datos_proceso));
                  p1 = (case fecha of
                          Some d \<Rightarrow>
                            proceso_existente
                              \<lparr>fecha_ultima_actuacion := Some (sqlite_datetime d)\<rparr>
                        | None \<Rightarrow> proceso_existente);
                  p2 = p1\<lparr>fecha_consulta := Some (sqlite_datetime now)\<rparr>
              in (Inr p2, db\<lparr>procesos := update_proceso p2 (procesos db)\<rparr>))
         | None \<Rightarrow>
             (case (case datos_empresa of
                      None \<Rightarrow> (Inr None, db)
                    | Some de \<Rightarrow>
                        if empresa_dict_truthy de
                        then (case guardar_empresa now_empresa db de of
                                (Inl err, db') \<Rightarrow> (Inl err, db')
                              | (Inr empresa, db') \<Rightarrow> (Inr (Some (emp_id empresa)), db'))
                        else (Inr None, db)) of
                (Inl err, db') \<Rightarrow> (Inl err, db')
              | (Inr empresa_id', db') \<Rightarrow>
                  (let nuevo_proceso =
                         \<lparr>pro_id = next_id (map pro_id (procesos db')),
                          id_proceso_api = id_proceso_api',
                          llave_proceso = dict_get (p_llaveProceso datos_proceso),
                          fecha_proceso =
                            datetime_column
                              (parse_date fromiso (dict_get (p_fechaProceso datos_proceso))),
                          fecha_ultima_actuacion =
                            datetime_column
                              (parse_date fromiso
                                 (dict_get (p_fechaUltimaActuacion datos_proceso))),
                          despacho = dict_get (p_despacho datos_proceso),
                          departamento = dict_get (p_departamento datos_proceso),
                          sujetos_procesales = dict_get (p_sujetosProcesales datos_proceso),
                          clase_proceso = None,
                          tipo_proceso = None,
                          subtipo_proceso = None,
                          ubicacion_expediente = None,
                          es_privado = Some False,
                          demandantes = None,
                          demandados = None,
                          resumen_generado = None,
                          fecha_consulta = Some (sqlite_datetime now),
                          empresa_id = empresa_id'\<rparr>
                   in (Inr nuevo_proceso,
                       db'\<lparr>procesos := procesos db' @ [nuevo_proceso]\<rparr>))))"

text \<open>
  \<^verbatim>\<open>json.dumps\<close> of a list of strings or of \<^verbatim>\<open>None\<close>, with the default
  \<^verbatim>\<open>ensure_ascii=True\<close>: inside a string the quote, the backslash and the control
  characters are escaped, and every character outside the printable ASCII range is
  written \<^verbatim>\<open>\u00XX\<close>.
\<close>

definition hex_digit :: "nat \<Rightarrow> char" where
  "hex_digit n = ''0123456789abcdef'' ! n"

definition json_escape_char :: "char \<Rightarrow> string" where
  "json_escape_char c =
     (if c = CHR 0x22 then [CHR 0x5C, CHR 0x22]
      else if c = CHR 0x5C then [CHR 0x5C, CHR 0x5C]
      else if c = CHR 0x0A then [CHR 0x5C, CHR ''n'']
      else if c = CHR 0x0D then [CHR 0x5C, CHR ''r'']
      else if c = CHR 0x09 then [CHR 0x5C, CHR ''t'']
      else if c = CHR 0x08 then [CHR 0x5C, CHR ''b'']
      else if c = CHR 0x0C then [CHR 0x5C, CHR ''f'']
      else if 32 \<le> (of_char c :: nat) \<and> (of_char c :: nat) \<le> 126 then [c]
      else [CHR 0x5C, CHR ''u'', CHR ''0'', CHR ''0'',
            hex_digit ((of_char c :: nat) div 16), hex_digit ((of_char c :: nat) mod 16)])"

definition json_string :: "string \<Rightarrow> string" where
  "json_string s = [CHR 0x22] @ concat (map json_escape_char s) @ [CHR 0x22]"

fun json_dumps :: "string list option \<Rightarrow> string" where
  "json_dumps None = ''null''"
| "json_dumps (Some xs) = ''['' @ py_join '', '' (map json_string xs) @ '']''"

text \<open>\<^verbatim>\<open>guardar_detalle_proceso\<close>.\<close>

definition guardar_detalle_proceso ::
  "database \<Rightarrow> string \<Rightarrow> detalle_dict \<Rightarrow> Proceso option \<times> database" where
  "guardar_detalle_proceso db id_proceso_api' detalle =
     (case find (\<lambda>r. id_proceso_api r = Some id_proceso_api') (procesos db) of
        None \<Rightarrow> (None, db)
      | Some proceso \<Rightarrow>
          (let p1 = proceso
                 \<lparr>clase_proceso := dict_get (d_claseProceso detalle),
                  tipo_proceso := dict_get (d_tipoProceso detalle),
                  subtipo_proceso := dict_get (d_subTipoProceso detalle),
                  ubicacion_expediente := dict_get (d_ubicacionExpediente detalle),
                  es_privado := dict_get_default (d_esPrivado detalle) False\<rparr>;
               p2 = (if has_key (d_demandantes detalle)
                     then p1\<lparr>demandantes :=
                              Some (json_dumps (dict_get (d_demandantes detalle)))\<rparr>
                     else p1);
               p3 = (if has_key (d_demandados detalle)
                     then p2\<lparr>demandados :=
                              Some (json_dumps (dict_get (d_demandados detalle)))\<rparr>
                     else p2)
           in (Some p3, db\<lparr>procesos := update_proceso p3 (procesos db)\<rparr>)))"

text \<open>
  \<^verbatim>\<open>guardar_actuaciones\<close>. The loop looks every action up in the committed rows and builds
  the list of new objects next to the list it returns; the commit inserts the new
  objects, which get consecutive keys. \<open>nueva_actuacion\<close> is a new object as it is read
  back after the commit.
\<close>

definition nueva_actuacion ::
  "(string \<Rightarrow> datetime option) \<Rightarrow> nat \<Rightarrow> Proceso \<Rightarrow> actuacion_dict \<Rightarrow> Actuacion" where
  "nueva_actuacion fromiso new_id proceso act_data =
     \<lparr>act_id = new_id,
      id_reg_actuacion = dict_get (a_idRegActuacion act_data),
      cons_actuacion = dict_get (a_consActuacion act_data),
      fecha_actuacion =
        datetime_column (parse_date fromiso (dict_get (a_fechaActuacion act_data))),
      actuacion = dict_get (a_actuacion act_data),
      anotacion = dict_get (a_anotacion act_data),
      fecha_inicial =
        datetime_column (parse_date fromiso (dict_get (a_fechaInicial act_data))),
      fecha_final =
        datetime_column (parse_date fromiso (dict_get (a_fechaFinal act_data))),
      fecha_registro =
        datetime_column (parse_date fromiso (dict_get (a_fechaRegistro act_data))),
      con_documentos =
        column_default False (dict_get_default (a_conDocumentos act_data) False),
      proceso_id = Some (pro_id proceso),
      nivel_urgencia = None,
      tipo_actuacion = None,
      requiere_accion = Some False,
      justificacion = None\<rparr>"

fun actuaciones_loop ::
  "(string \<Rightarrow> datetime option) \<Rightarrow> Actuacion list \<Rightarrow> Proceso \<Rightarrow> nat \<Rightarrow> actuacion_dict list
     \<Rightarrow> Actuacion list \<times> Actuacion list" where
  "actuaciones_loop fromiso stored proceso new_id [] = ([], [])"
| "actuaciones_loop fromiso stored proceso new_id (act_data # rest) =
     (case find (\<lambda>r. id_reg_actuacion r = dict_get (a_idRegActuacion act_data)) stored of
        Some actuacion_existente \<Rightarrow>
          (case actuaciones_loop fromiso stored proceso new_id rest of
             (nuevas, guardadas) \<Rightarrow> (nuevas, actuacion_existente # guardadas))
      | None \<Rightarrow>
          (let nueva = nueva_actuacion fromiso new_id proceso act_data
           in case actuaciones_loop fromiso stored proceso (Suc new_id) rest of
                (nuevas, guardadas) \<Rightarrow> (nueva # nuevas, nueva # guardadas)))"

text \<open>
  The commit inserts the new rows one after the other. A row whose sequence number does
  not fit the \<^verbatim>\<open>Integer\<close> column raises \<^verbatim>\<open>OverflowError\<close>, a row whose identifier is
  already in the table raises \<^verbatim>\<open>IntegrityError\<close>; either way the transaction is lost and
  the table is as before the call.
\<close>

fun insert_actuaciones :: "Actuacion list \<Rightarrow> Actuacion list \<Rightarrow> pyerror + Actuacion list" where
  "insert_actuaciones stored [] = Inr stored"
| "insert_actuaciones stored (r # rest) =
     (if \<not> sqlite_integer_ok (cons_actuacion r) then Inl OverflowError
      else if \<not> unique_insert_ok (map id_reg_actuacion stored) [id_reg_actuacion r]
        then Inl IntegrityError
      else insert_actuaciones (stored @ [r]) rest)"

definition guardar_actuaciones ::
  "(string \<Rightarrow> datetime option) \<Rightarrow> database \<Rightarrow> string \<Rightarrow> actuacion_dict list
     \<Rightarrow> (pyerror + Actuacion list) \<times> database" where
  "guardar_actuaciones fromiso db id_proceso_api' actuaciones' =
     (case find (\<lambda>r. id_proceso_api r = Some id_proceso_api') (procesos db) of
        None \<Rightarrow> (Inr [], db)
      | Some proceso \<Rightarrow>
          (case actuaciones_loop fromiso (actuaciones db) proceso
                  (next_id (map act_id (actuaciones db))) actuaciones' of
             (nuevas, actuaciones_guardadas) \<Rightarrow>
               (case insert_actuaciones (actuaciones db) nuevas of
                  Inl err \<Rightarrow> (Inl err, db)
                | Inr rows \<Rightarrow> (Inr actuaciones_guardadas, db\<lparr>actuaciones := rows\<rparr>))))"

text \<open>\<^verbatim>\<open>guardar_clasificacion_actuacion\<close>.\<close>

definition guardar_clasificacion_actuacion ::
  "database \<Rightarrow> string \<Rightarrow> clasificacion_dict \<Rightarrow> Actuacion option \<times> database" where
  "guardar_clasificacion_actuacion db id_reg_actuacion' clasificacion =
     (case find (\<lambda>r. id_reg_actuacion r = Some id_reg_actuacion') (actuaciones db) of
        None \<Rightarrow> (None, db)
      | Some actuacion' \<Rightarrow>
          (let a' = actuacion'
                 \<lparr>nivel_urgencia := dict_get (c_nivel_urgencia clasificacion),
                  tipo_actuacion := dict_get (c_tipo_actuacion clasificacion),
                  requiere_accion := dict_get_default (c_requiere_accion clasificacion) False,
                  justificacion := dict_get (c_justificacion clasificacion)\<rparr>
           in (Some a', db\<lparr>actuaciones := update_actuacion a' (actuaciones db)\<rparr>)))"

text \<open>A full ISO parser that rejects every string, for the examples.\<close>

definition fromiso_none :: "string \<Rightarrow> datetime option" where
  "fromiso_none s = None"

text \<open>
  What the store's own constraints guarantee of a table: primary keys are pairwise
  different, and so are the external identifiers that are not \<^verbatim>\<open>NULL\<close>.
\<close>

definition unique_keys :: "'k option list \<Rightarrow> bool" where
  "unique_keys ks = distinct (filter (\<lambda>k. k \<noteq> None) ks)"

definition store_ok :: "database \<Rightarrow> bool" where
  "store_ok db =
     (distinct (map emp_id (empresas db)) \<and> unique_keys (map nit (empresas db))
      \<and> distinct (map pro_id (procesos db)) \<and> unique_keys (map id_proceso_api (procesos db))
      \<and> distinct (map act_id (actuaciones db))
      \<and> unique_keys (map id_reg_actuacion (actuaciones db)))"

section \<open>Example values\<close>

definition proceso_ejemplo :: Proceso where
  "proceso_ejemplo =
     \<lparr>pro_id = 1, id_proceso_api = Some ''P1'',
      llave_proceso = Some ''11001400300320230051800'',
      fecha_proceso = Some (midnight 2023 5 2),
      fecha_ultima_actuacion = Some (midnight 2024 1 10),
      despacho = Some ''JUZGADO 003 CIVIL MUNICIPAL'', departamento = Some ''BOGOTA'',
      sujetos_procesales = Some ''Demandante: ACME SAS'', clase_proceso = None,
      tipo_proceso = None, subtipo_proceso = None, ubicacion_expediente = None,
      es_privado = Some False, demandantes = Some (json_dumps (Some [''ACME SAS''])),
      demandados = None, resumen_generado = None,
      fecha_consulta = Some (midnight 2024 1 11), empresa_id = None\<rparr>"

definition db_ejemplo :: database where
  "db_ejemplo = \<lparr>empresas = [], procesos = [proceso_ejemplo], actuaciones = []\<rparr>"

definition actuacion_ejemplo :: actuacion_dict where
  "actuacion_ejemplo =
     \<lparr>a_idRegActuacion = Val ''A1'', a_consActuacion = Val 7,
      a_fechaActuacion = Val ''2024-03-15'', a_actuacion = Val ''Fija fecha AUDIENCIA'',
      a_anotacion = Null, a_fechaInicial = Null, a_fechaFinal = Null,
      a_fechaRegistro = Missing, a_conDocumentos = Val False\<rparr>"

definition detalle_ejemplo :: detalle_dict where
  "detalle_ejemplo =
     \<lparr>d_llaveProceso = Val ''11001400300320230051800'', d_despacho = Missing,
      d_claseProceso = Val ''Ejecutivo'', d_tipoProceso = Missing,
      d_subTipoProceso = Missing, d_ubicacionExpediente = Val ''Secretaria'',
      d_esPrivado = Val False, d_demandantes = Missing, d_demandados = Val [''Juan Perez'']\<rparr>"

definition datos_proceso_ejemplo :: proceso_dict where
  "datos_proceso_ejemplo =
     \<lparr>p_idProceso = Val ''P1'', p_llaveProceso = Val ''OTRA LLAVE'',
      p_fechaProceso = Val ''2020-01-01'', p_fechaUltimaActuacion = Val ''2024-03-15T00:00:00'',
      p_despacho = Val ''OTRO DESPACHO'', p_departamento = Val ''CALI'',
      p_sujetosProcesales = Null\<rparr>"

definition datos_empresa_ejemplo :: empresa_dict where
  "datos_empresa_ejemplo =
     \<lparr>e_nombre = Val ''ACME SAS'', e_tipo_persona = Val ''jur'', e_nit = Missing,
      e_otras_claves = False\<rparr>"

definition db_vacia :: database where
  "db_vacia = \<lparr>empresas = [], procesos = [], actuaciones = []\<rparr>"

definition datos_proceso_cambiado :: proceso_dict where
  "datos_proceso_cambiado =
     \<lparr>p_idProceso = Val ''P1'', p_llaveProceso = Val ''LLAVE NUEVA'',
      p_fechaProceso = Val ''2021-02-02'', p_fechaUltimaActuacion = Val ''2024-06-30'',
      p_despacho = Val ''DESPACHO NUEVO'', p_departamento = Val ''MEDELLIN'',
      p_sujetosProcesales = Val ''Demandado: Juan Perez''\<rparr>"

text \<open>
  The row and the store after \<open>datos_proceso_ejemplo\<close> with the hint
  \<open>datos_empresa_ejemplo\<close> is saved into the empty store on 1 April 2024.
\<close>

definition proceso_primera_vez :: Proceso where
  "proceso_primera_vez =
     \<lparr>pro_id = 1, id_proceso_api = Some ''P1'', llave_proceso = Some ''OTRA LLAVE'',
      fecha_proceso = Some (midnight 2020 1 1),
      fecha_ultima_actuacion = Some (midnight 2024 3 15),
      despacho = Some ''OTRO DESPACHO'', departamento = Some ''CALI'',
      sujetos_procesales = None, clase_proceso = None, tipo_proceso = None,
      subtipo_proceso = None, ubicacion_expediente = None, es_privado = Some False,
      demandantes = None, demandados = None, resumen_generado = None,
      fecha_consulta = Some (midnight 2024 4 1), empresa_id = Some 1\<rparr>"

definition db_primera_vez :: database where
  "db_primera_vez =
     \<lparr>empresas = [\<lparr>emp_id = 1, nombre = Some ''ACME SAS'', tipo_persona = Some ''jur'',
                    nit = None, fecha_creacion = Some (midnight 2024 4 1)\<rparr>],
      procesos = [proceso_primera_vez], actuaciones = []\<rparr>"

definition lote_ejemplo :: "actuacion_dict list" where
  "lote_ejemplo = [actuacion_ejemplo, actuacion_ejemplo\<lparr>a_idRegActuacion := Val ''A2''\<rparr>]"

section \<open>Properties of date parsing\<close>

lemma below_ten:
  "k < 10 \<Longrightarrow> k = 0 \<or> k = 1 \<or> k = 2 \<or> k = 3 \<or> k = 4 \<or> k = 5 \<or> k = 6 \<or> k = 7 \<or> k = 8 \<or> k = (9::nat)"
  by arith

lemma digit_char_props:
  assumes "k < 10"
  shows "is_digit (digit_char k)" and "digit_val (digit_char k) = k"
    and "is_nonzero_digit (digit_char k) = (k \<noteq> 0)"
    and "digit_char k \<noteq> CHR ''-''" and "digit_char k \<noteq> CHR ''T''"
  using below_ten [OF assms]
  by (auto simp: digit_char_def is_digit_def digit_val_def is_nonzero_digit_def)

lemma match_month_padded:
  assumes "1 \<le> m" "m \<le> 12"
  shows "match_month (digit_char (m div 10) # digit_char (m mod 10) # CHR ''-'' # r) = Some (m, r)"
proof -
  have "m = 1 \<or> m = 2 \<or> m = 3 \<or> m = 4 \<or> m = 5 \<or> m = 6 \<or> m = 7 \<or> m = 8 \<or> m = 9
        \<or> m = 10 \<or> m = 11 \<or> m = 12" using assms by arith
  then show ?thesis
    by (elim disjE) (simp_all add: digit_char_def is_nonzero_digit_def digit_val_def)
qed

lemma match_day_padded:
  assumes "1 \<le> d" "d \<le> 31"
  shows "match_day (digit_char (d div 10) # digit_char (d mod 10) # r) = Some (d, r)"
proof -
  have "d = 1 \<or> d = 2 \<or> d = 3 \<or> d = 4 \<or> d = 5 \<or> d = 6 \<or> d = 7 \<or> d = 8 \<or> d = 9
        \<or> d = 10 \<or> d = 11 \<or> d = 12 \<or> d = 13 \<or> d = 14 \<or> d = 15 \<or> d = 16 \<or> d = 17
        \<or> d = 18 \<or> d = 19 \<or> d = 20 \<or> d = 21 \<or> d = 22 \<or> d = 23 \<or> d = 24 \<or> d = 25
        \<or> d = 26 \<or> d = 27 \<or> d = 28 \<or> d = 29 \<or> d = 30 \<or> d = 31" using assms by arith
  then show ?thesis
    by (elim disjE) (simp_all add: digit_char_def is_nonzero_digit_def is_digit_def digit_val_def)
qed

lemma days_in_month_le: "days_in_month y m \<le> 31"
  by (simp add: days_in_month_def)

lemma year_sum:
  "1000 * (y div 1000) + 100 * (y div 100 mod 10) + 10 * (y div 10 mod 10) + y mod 10 = (y::nat)"
proof -
  have a: "y div 100 = y div 10 div 10" by (simp add: div_mult2_eq)
  have b: "y div 1000 = y div 10 div 10 div 10" by (simp add: div_mult2_eq)
  have c: "y = 10 * (y div 10) + y mod 10" by simp
  have d: "y div 10 = 10 * (y div 10 div 10) + y div 10 mod 10" by simp
  have e: "y div 10 div 10 = 10 * (y div 10 div 10 div 10) + y div 10 div 10 mod 10" by simp
  show ?thesis unfolding a b using c d e by linarith
qed

lemma year_digits:
  assumes "y \<le> 9999"
  shows "1000 * digit_val (digit_char (y div 1000))
         + 100 * digit_val (digit_char (y div 100 mod 10))
         + 10 * digit_val (digit_char (y div 10 mod 10)) + digit_val (digit_char (y mod 10)) = y"
proof -
  have y1: "y div 1000 < 10" using assms by simp
  have v1: "digit_val (digit_char (y div 1000)) = y div 1000"
    by (rule digit_char_props(2) [OF y1])
  have v2: "digit_val (digit_char (y div 100 mod 10)) = y div 100 mod 10"
    by (rule digit_char_props(2)) simp
  have v3: "digit_val (digit_char (y div 10 mod 10)) = y div 10 mod 10"
    by (rule digit_char_props(2)) simp
  have v4: "digit_val (digit_char (y mod 10)) = y mod 10"
    by (rule digit_char_props(2)) simp
  show ?thesis unfolding v1 v2 v3 v4 by (rule year_sum)
qed

lemma strptime_iso_date:
  assumes "valid_date y m d"
  shows "strptime_ymd (iso_date y m d) = Some (midnight y m d)"
proof -
  from assms have y: "1 \<le> y" "y \<le> 9999" and m: "1 \<le> m" "m \<le> 12"
    and d: "1 \<le> d" "d \<le> days_in_month y m" by (simp_all add: valid_date_def)
  have d31: "d \<le> 31" using d(2) days_in_month_le [of y m] by simp
  have y1: "y div 1000 < 10" using y by simp
  have g: "is_digit (digit_char (y div 1000))" "is_digit (digit_char (y div 100 mod 10))"
    "is_digit (digit_char (y div 10 mod 10))" "is_digit (digit_char (y mod 10))"
    using y1 by (simp_all add: digit_char_props(1))
  show ?thesis
    using y(1) d(2)
    by (simp add: iso_date_def g match_month_padded [OF m] match_day_padded [OF d(1) d31]
        year_digits [OF y(2)] del: match_month.simps match_day.simps)
qed

lemma strptime_iso_date_suffix:
  assumes "valid_date y m d"
  shows "strptime_ymd (iso_date y m d @ c # t) = None"
proof -
  from assms have m: "1 \<le> m" "m \<le> 12"
    and d: "1 \<le> d" "d \<le> days_in_month y m" by (simp_all add: valid_date_def)
  have d31: "d \<le> 31" using d(2) days_in_month_le [of y m] by simp
  show ?thesis
    by (simp add: iso_date_def match_month_padded [OF m] match_day_padded [OF d(1) d31]
        del: match_month.simps match_day.simps)
qed

lemma split_char_first:
  "sep \<notin> set xs \<Longrightarrow> split_char sep (xs @ sep # t) = xs # split_char sep t"
  by (induction xs) auto

lemma split_char_takeWhile:
  "split_char sep s = takeWhile (\<lambda>c. c \<noteq> sep) s #
     (case dropWhile (\<lambda>c. c \<noteq> sep) s of [] \<Rightarrow> [] | x # r \<Rightarrow> split_char sep r)"
  by (induction s) (auto split: list.splits)

lemma iso_date_no_T:
  assumes "valid_date y m d"
  shows "CHR ''T'' \<notin> set (iso_date y m d)"
proof -
  from assms have y: "y \<le> 9999" and m: "m \<le> 12"
    and d: "d \<le> days_in_month y m" by (simp_all add: valid_date_def)
  have d31: "d \<le> 31" using d days_in_month_le [of y m] by simp
  have "y div 1000 < 10" "m div 10 < 10" "d div 10 < 10" using y m d31 by simp_all
  then show ?thesis
    by (simp add: iso_date_def digit_char_props(5) [THEN not_sym])
qed

lemma parse_date_iso:
  assumes "valid_date y m d"
  shows "parse_date fromiso (Some (iso_date y m d)) = Some (midnight y m d)"
proof -
  have "iso_date y m d \<noteq> []" by (simp add: iso_date_def)
  then show ?thesis
    by (simp add: parse_date_def strptime_iso_date [OF assms])
qed

lemma parse_date_iso_T:
  assumes "valid_date y m d"
  shows "parse_date fromiso (Some (iso_date y m d @ CHR ''T'' # t)) = Some (midnight y m d)"
  by (simp add: parse_date_def split_char_first [OF iso_date_no_T [OF assms]]
      strptime_iso_date [OF assms] strptime_iso_date_suffix [OF assms])

lemma parse_date_cascade:
  assumes "s \<noteq> []"
  shows "parse_date fromiso (Some s) =
          (case strptime_ymd s of
             Some dt \<Rightarrow> Some dt
           | None \<Rightarrow>
              (case strptime_ymd (takeWhile (\<lambda>c. c \<noteq> CHR ''T'') s) of
                 Some dt \<Rightarrow> Some dt
               | None \<Rightarrow> fromiso s))"
  using assms
  by (simp add: parse_date_def split_char_takeWhile [of _ s] split: option.splits)

text \<open>
  C4. \<open>parse_date\<close> gives the same calendar date, 15 March 2024 at midnight, for
  \<^verbatim>\<open>"2024-03-15"\<close>, \<^verbatim>\<open>"2024-03-15T00:00:00"\<close> and \<^verbatim>\<open>"2024-03-15T00:00:00Z"\<close>; the empty
  string and \<^verbatim>\<open>None\<close> give no value. In general every valid date written \<^verbatim>\<open>YYYY-MM-DD\<close> is
  accepted, also when followed by \<^verbatim>\<open>T\<close> and any text; and a non-empty string is parsed as
  \<^verbatim>\<open>YYYY-MM-DD\<close>, else its part before the first \<^verbatim>\<open>T\<close> is, else the full ISO parser
  decides, whose rejection gives no value. The function returns for every input: no
  value stands for a failed parse, and no error leaves the function.
\<close>

theorem parse_date_policy:
  "parse_date fromiso (Some ''2024-03-15'') = Some (midnight 2024 3 15)
   \<and> parse_date fromiso (Some ''2024-03-15T00:00:00'') = Some (midnight 2024 3 15)
   \<and> parse_date fromiso (Some ''2024-03-15T00:00:00Z'') = Some (midnight 2024 3 15)
   \<and> parse_date fromiso (Some []) = None
   \<and> parse_date fromiso None = None
   \<and> (valid_date y m d \<longrightarrow>
        parse_date fromiso (Some (iso_date y m d)) = Some (midnight y m d)
        \<and> parse_date fromiso (Some (iso_date y m d @ CHR ''T'' # t)) = Some (midnight y m d))
   \<and> (s \<noteq> [] \<longrightarrow>
        parse_date fromiso (Some s) =
          (case strptime_ymd s of
             Some dt \<Rightarrow> Some dt
           | None \<Rightarrow>
              (case strptime_ymd (takeWhile (\<lambda>c. c \<noteq> CHR ''T'') s) of
                 Some dt \<Rightarrow> Some dt
               | None \<Rightarrow> fromiso s)))"
proof -
  have ex: "valid_date 2024 3 15"
    by (simp add: valid_date_def days_in_month_def)
  have iso: "iso_date 2024 3 15 = ''2024-03-15''"
    by (simp add: iso_date_def digit_char_def)
  have a: "parse_date fromiso (Some ''2024-03-15'') = Some (midnight 2024 3 15)"
    using parse_date_iso [OF ex, of fromiso] by (simp only: iso)
  have b: "parse_date fromiso (Some ''2024-03-15T00:00:00'') = Some (midnight 2024 3 15)"
    using parse_date_iso_T [OF ex, of fromiso "''00:00:00''"] by (simp add: iso)
  have c: "parse_date fromiso (Some ''2024-03-15T00:00:00Z'') = Some (midnight 2024 3 15)"
    using parse_date_iso_T [OF ex, of fromiso "''00:00:00Z''"] by (simp add: iso)
  have d: "parse_date fromiso (Some []) = None" "parse_date fromiso None = None"
    by (simp_all add: parse_date_def)
  show ?thesis
    using a b c d parse_date_cascade [of s fromiso] parse_date_iso [of y m d fromiso]
      parse_date_iso_T [of y m d fromiso t]
    by blast
qed

theorem parse_date_policy_witness:
  "valid_date 2023 2 28
   \<and> parse_date (\<lambda>s. None) (Some ''2023-02-28'') = Some (midnight 2023 2 28)
   \<and> parse_date (\<lambda>s. None) (Some ''2023-02-28T10:30:00'') = Some (midnight 2023 2 28)
   \<and> ''28/02/2023'' \<noteq> []
   \<and> parse_date (\<lambda>s. None) (Some ''28/02/2023'') = None"
proof -
  have v: "valid_date 2023 2 28"
    by (simp add: valid_date_def days_in_month_def is_leap_def)
  have n: "''28/02/2023'' \<noteq> []" by simp
  have iso: "iso_date 2023 2 28 = ''2023-02-28''"
    by (simp add: iso_date_def digit_char_def)
  have u: "strptime_ymd ''28/02/2023'' = None"
    "strptime_ymd (takeWhile (\<lambda>c. c \<noteq> CHR ''T'') ''28/02/2023'') = None"
    by (simp_all add: is_digit_def)
  show ?thesis
    using v n parse_date_policy [of "\<lambda>s. None" 2023 2 28 "''10:30:00''" "''28/02/2023''"]
    by (simp add: iso u)
qed

section \<open>Properties of the classifier and of the summary\<close>

lemma starts_with_iff: "starts_with p s \<longleftrightarrow> (\<exists>b. s = p @ b)"
  by (induction p s rule: starts_with.induct) auto

lemma py_in_iff: "py_in p s \<longleftrightarrow> (\<exists>x y. s = x @ p @ y)"
proof (induction s)
  case Nil
  then show ?case by auto
next
  case (Cons c cs)
  show ?case
  proof
    assume "py_in p (c # cs)"
    then consider "starts_with p (c # cs)" | "py_in p cs" by auto
    then show "\<exists>x y. c # cs = x @ p @ y"
    proof cases
      case 1
      then obtain b where "c # cs = p @ b" by (auto simp: starts_with_iff)
      then have "c # cs = [] @ p @ b" by simp
      then show ?thesis by blast
    next
      case 2
      then obtain x y where "cs = x @ p @ y" using Cons.IH by auto
      then have "c # cs = (c # x) @ p @ y" by simp
      then show ?thesis by blast
    qed
  next
    assume "\<exists>x y. c # cs = x @ p @ y"
    then obtain x y where e: "c # cs = x @ p @ y" by auto
    show "py_in p (c # cs)"
    proof (cases x)
      case Nil
      then have "starts_with p (c # cs)" using e by (auto simp: starts_with_iff)
      then show ?thesis by simp
    next
      case (Cons a x')
      then have "cs = x' @ p @ y" using e by simp
      then have "py_in p cs" using Cons.IH by auto
      then show ?thesis by simp
    qed
  qed
qed

lemma list_ex_py_in:
  "list_ex (\<lambda>w. py_in w t) ws \<longleftrightarrow> (\<exists>w\<in>set ws. \<exists>x y. t = x @ w @ y)"
  by (simp add: list_ex_iff py_in_iff)

lemma py_lower_append: "py_lower (x @ y) = py_lower x @ py_lower y"
  by (simp add: py_lower_def)

text \<open>
  C3, as amended. The keyword rules look at the lower-cased label (a missing label counts
  as the empty one) and take the first of four rules, in this order: a label with
  \<^verbatim>\<open>audiencia\<close>, \<^verbatim>\<open>citacion\<close> (o with accent) or \<^verbatim>\<open>comparecencia\<close> gives
  \<^verbatim>\<open>Urgente\<close>/\<^verbatim>\<open>Audiencia\<close>/true; else one with \<^verbatim>\<open>requerimiento\<close>, \<^verbatim>\<open>solicitud\<close> or \<^verbatim>\<open>plazo\<close>
  gives \<^verbatim>\<open>Alta\<close>/\<^verbatim>\<open>Requerimiento\<close>/true; else one with \<^verbatim>\<open>notificacion\<close>, \<^verbatim>\<open>aviso\<close> or
  \<^verbatim>\<open>comunicacion\<close> (o with accent) gives \<^verbatim>\<open>Normal\<close>/\<^verbatim>\<open>Notificacion\<close>/false; every other
  label gives \<^verbatim>\<open>Baja\<close>/\<^verbatim>\<open>Tramite\<close>/false. In particular a label that holds \<^verbatim>\<open>audiencia\<close>
  in any mix of capitals is urgent, whatever the other fields of the action are.
\<close>

theorem clasificar_palabras_clave:
  "dict_get_default (a_actuacion act) [] = Some label \<longrightarrow>
     clasificar_actuacion_simulada act =
       Inr (if \<exists>w \<in> {''audiencia'', ''citaci'' @ [o_acute] @ ''n'', ''comparecencia''}.
                 \<exists>x y. py_lower label = x @ w @ y
            then \<lparr>c_nivel_urgencia = Val ''Urgente'', c_tipo_actuacion = Val ''Audiencia'',
                  c_requiere_accion = Val True,
                  c_justificacion = Val (''Las audiencias requieren preparaci'' @ [o_acute]
                    @ ''n y asistencia obligatoria.'')\<rparr>
            else if \<exists>w \<in> {''requerimiento'', ''solicitud'', ''plazo''}.
                 \<exists>x y. py_lower label = x @ w @ y
            then \<lparr>c_nivel_urgencia = Val ''Alta'', c_tipo_actuacion = Val ''Requerimiento'',
                  c_requiere_accion = Val True,
                  c_justificacion =
                    Val ''Existe un plazo definido para responder al requerimiento.''\<rparr>
            else if \<exists>w \<in> {''notificaci'' @ [o_acute] @ ''n'', ''aviso'',
                            ''comunicaci'' @ [o_acute] @ ''n''}.
                 \<exists>x y. py_lower label = x @ w @ y
            then \<lparr>c_nivel_urgencia = Val ''Normal'',
                  c_tipo_actuacion = Val (''Notificaci'' @ [o_acute] @ ''n''),
                  c_requiere_accion = Val False,
                  c_justificacion = Val (''Es una notificaci'' @ [o_acute]
                    @ ''n informativa que no requiere acci'' @ [o_acute] @ ''n inmediata.'')\<rparr>
            else \<lparr>c_nivel_urgencia = Val ''Baja'',
                  c_tipo_actuacion = Val (''Tr'' @ [a_acute] @ ''mite''),
                  c_requiere_accion = Val False,
                  c_justificacion = Val (''Actuaci'' @ [o_acute] @ ''n de tr'' @ [a_acute]
                    @ ''mite regular sin plazos cr'' @ [i_acute] @ ''ticos asociados.'')\<rparr>)
     \<and> (\<forall>u x y. py_lower u = ''audiencia'' \<and> label = x @ u @ y \<longrightarrow>
           (\<exists>r. clasificar_actuacion_simulada act = Inr r
                \<and> c_nivel_urgencia r = Val ''Urgente'' \<and> c_tipo_actuacion r = Val ''Audiencia''
                \<and> c_requiere_accion r = Val True))"
  (is "?given \<longrightarrow> ?rules \<and> ?anycase")
proof (intro impI conjI)
  assume l: ?given
  have sets:
    "set palabras_audiencia = {''audiencia'', ''citaci'' @ [o_acute] @ ''n'', ''comparecencia''}"
    "set palabras_requerimiento = {''requerimiento'', ''solicitud'', ''plazo''}"
    "set palabras_notificacion =
       {''notificaci'' @ [o_acute] @ ''n'', ''aviso'', ''comunicaci'' @ [o_acute] @ ''n''}"
    by (simp_all add: palabras_audiencia_def palabras_requerimiento_def
        palabras_notificacion_def)
  show main: ?rules
    unfolding clasificar_actuacion_simulada_def l list_ex_py_in sets
    by (simp add: clasificacion_audiencia_def clasificacion_requerimiento_def
        clasificacion_notificacion_def clasificacion_tramite_def Let_def
        del: insert_iff bex_simps)
  show ?anycase
  proof (intro allI impI)
    fix u x y
    assume "py_lower u = ''audiencia'' \<and> label = x @ u @ y"
    then have "py_lower label = py_lower x @ ''audiencia'' @ py_lower y"
      by (simp add: py_lower_append)
    then have "\<exists>w \<in> {''audiencia'', ''citaci'' @ [o_acute] @ ''n'', ''comparecencia''}.
                 \<exists>x y. py_lower label = x @ w @ y" by blast
    then show "\<exists>r. clasificar_actuacion_simulada act = Inr r
                \<and> c_nivel_urgencia r = Val ''Urgente'' \<and> c_tipo_actuacion r = Val ''Audiencia''
                \<and> c_requiere_accion r = Val True"
      unfolding main by (simp del: insert_iff bex_simps)
  qed
qed

theorem clasificar_palabras_clave_witness:
  "dict_get_default (Val ''Fija fecha para AUDIENCIA inicial'') [] =
     Some ''Fija fecha para AUDIENCIA inicial''
   \<and> py_lower ''AUDIENCIA'' = ''audiencia''
   \<and> ''Fija fecha para AUDIENCIA inicial'' = ''Fija fecha para '' @ ''AUDIENCIA'' @ '' inicial''
   \<and> (\<exists>r. clasificar_actuacion_simulada
             \<lparr>a_idRegActuacion = Val ''A1'', a_consActuacion = Val 7,
              a_fechaActuacion = Val ''2024-03-15'',
              a_actuacion = Val ''Fija fecha para AUDIENCIA inicial'', a_anotacion = Null,
              a_fechaInicial = Null, a_fechaFinal = Null, a_fechaRegistro = Missing,
              a_conDocumentos = Val False\<rparr> = Inr r
          \<and> c_nivel_urgencia r = Val ''Urgente'' \<and> c_tipo_actuacion r = Val ''Audiencia''
          \<and> c_requiere_accion r = Val True)"
proof -
  have g: "dict_get_default (Val ''Fija fecha para AUDIENCIA inicial'') [] =
     Some ''Fija fecha para AUDIENCIA inicial''" by simp
  have lo: "py_lower ''AUDIENCIA'' = ''audiencia''"
    by (simp add: py_lower_def is_upper_def)
  have sp: "''Fija fecha para AUDIENCIA inicial'' = ''Fija fecha para '' @ ''AUDIENCIA'' @ '' inicial''"
    by simp
  have "\<forall>u x y. py_lower u = ''audiencia''
          \<and> ''Fija fecha para AUDIENCIA inicial'' = x @ u @ y \<longrightarrow>
           (\<exists>r. clasificar_actuacion_simulada
             \<lparr>a_idRegActuacion = Val ''A1'', a_consActuacion = Val 7,
              a_fechaActuacion = Val ''2024-03-15'',
              a_actuacion = Val ''Fija fecha para AUDIENCIA inicial'', a_anotacion = Null,
              a_fechaInicial = Null, a_fechaFinal = Null, a_fechaRegistro = Missing,
              a_conDocumentos = Val False\<rparr> = Inr r
                \<and> c_nivel_urgencia r = Val ''Urgente'' \<and> c_tipo_actuacion r = Val ''Audiencia''
                \<and> c_requiere_accion r = Val True)"
    using clasificar_palabras_clave
      [of "\<lparr>a_idRegActuacion = Val ''A1'', a_consActuacion = Val 7,
              a_fechaActuacion = Val ''2024-03-15'',
              a_actuacion = Val ''Fija fecha para AUDIENCIA inicial'', a_anotacion = Null,
              a_fechaInicial = Null, a_fechaFinal = Null, a_fechaRegistro = Missing,
              a_conDocumentos = Val False\<rparr>" "''Fija fecha para AUDIENCIA inicial''"]
    by simp
  then show ?thesis using g lo sp by blast
qed

text \<open>
  The English keywords are not matched: a label with the word \<^verbatim>\<open>hearing\<close> falls through
  to the last rule.
\<close>

theorem clasificar_hearing_counterexample:
  "clasificar_actuacion_simulada
     \<lparr>a_idRegActuacion = Val ''A1'', a_consActuacion = Val 7,
      a_fechaActuacion = Val ''2024-03-15'', a_actuacion = Val ''Hearing'',
      a_anotacion = Null, a_fechaInicial = Null, a_fechaFinal = Null,
      a_fechaRegistro = Missing, a_conDocumentos = Val False\<rparr>
   = Inr \<lparr>c_nivel_urgencia = Val ''Baja'',
          c_tipo_actuacion = Val (''Tr'' @ [a_acute] @ ''mite''),
          c_requiere_accion = Val False,
          c_justificacion = Val (''Actuaci'' @ [o_acute] @ ''n de tr'' @ [a_acute]
            @ ''mite regular sin plazos cr'' @ [i_acute] @ ''ticos asociados.'')\<rparr>"
  by (simp add: clasificar_actuacion_simulada_def py_lower_def is_upper_def
      palabras_audiencia_def palabras_requerimiento_def palabras_notificacion_def
      clasificacion_tramite_def)

text \<open>
  C8. The classifier is not total: the service, which always runs the keyword rules,
  raises \<^verbatim>\<open>AttributeError\<close> on an action whose label is \<^verbatim>\<open>null\<close>.
\<close>

theorem clasificar_null_label_raises:
  "clasificar_actuacion (init_ai_service name) modelo
     \<lparr>a_idRegActuacion = Val ''A1'', a_consActuacion = Val 7,
      a_fechaActuacion = Val ''2024-03-15'', a_actuacion = Null,
      a_anotacion = Val ''Se fija fecha'', a_fechaInicial = Null, a_fechaFinal = Null,
      a_fechaRegistro = Missing, a_conDocumentos = Val False\<rparr>
   = Inl AttributeError"
  by (simp add: clasificar_actuacion_def init_ai_service_def clasificar_actuacion_simulada_def)

subsection \<open>What the classifier does guarantee\<close>

lemma py_lower_citacion:
  "py_lower (''CITACI'' @ [CHR 0xD3] @ ''N'') = ''citaci'' @ [o_acute] @ ''n''"
  by (simp add: py_lower_def is_upper_def)

lemma clasificar_simulada_returns:
  assumes "a_actuacion act \<noteq> Null"
  shows "\<exists>u t r j. clasificar_actuacion_simulada act =
           Inr \<lparr>c_nivel_urgencia = Val u, c_tipo_actuacion = Val t,
                c_requiere_accion = Val r, c_justificacion = Val j\<rparr>"
proof (cases "a_actuacion act")
  case Missing
  then show ?thesis
    by (auto simp: clasificar_actuacion_simulada_def Let_def clasificacion_audiencia_def
        clasificacion_requerimiento_def clasificacion_notificacion_def
        clasificacion_tramite_def)
next
  case Null
  then show ?thesis using assms by simp
next
  case (Val label)
  then show ?thesis
    by (auto simp: clasificar_actuacion_simulada_def Let_def clasificacion_audiencia_def
        clasificacion_requerimiento_def clasificacion_notificacion_def
        clasificacion_tramite_def)
qed

lemma clasificar_modelo_never_raises:
  assumes "\<not> use_simulation self"
  shows "\<exists>r. clasificar_actuacion self modelo act = Inr r"
  using assms by (cases "modelo act") (simp_all add: clasificar_actuacion_def)

subsection \<open>The simulated summary\<close>

lemma py_strip_core:
  assumes "\<not> is_space c" "\<not> is_space e" "\<forall>w \<in> set ws1. is_space w"
    "\<forall>w \<in> set ws2. is_space w"
  shows "py_strip (ws1 @ c # mid @ e # ws2) = c # mid @ [e]"
proof -
  have a: "dropWhile is_space (ws1 @ c # mid @ e # ws2) = c # mid @ e # ws2"
    using assms(1,3) by (simp add: dropWhile_append3)
  have b: "rev (c # mid @ e # ws2) = rev ws2 @ e # rev mid @ [c]" by simp
  have c: "dropWhile is_space (rev ws2 @ e # rev mid @ [c]) = e # rev mid @ [c]"
    using assms(2,4) by (simp add: dropWhile_append3)
  show ?thesis unfolding py_strip_def a b c by simp
qed

lemma py_strip_resumen:
  "py_strip (resumen_plantilla r d a b) = resumen_texto r d a b"
proof -
  have nsp: "\<not> is_space (CHR ''E'')" "\<not> is_space (CHR ''.'')"
    by (simp_all add: is_space_def)
  have sp: "\<forall>w \<in> set ([newline] @ ''        ''). is_space w"
    by (simp add: is_space_def)
  obtain mid where m: "resumen_texto r d a b = CHR ''E'' # mid @ [CHR ''.'']"
    by (simp add: resumen_texto_def)
  have "resumen_plantilla r d a b
        = ([newline] @ ''        '') @ resumen_texto r d a b @ ([newline] @ ''        '')"
    by (simp add: resumen_plantilla_def resumen_texto_def)
  also have "\<dots> = ([newline] @ ''        '') @ CHR ''E'' # mid
                     @ CHR ''.'' # ([newline] @ ''        '')"
    by (simp add: m)
  finally show ?thesis
    using py_strip_core [OF nsp sp sp, of mid] by (simp only: m)
qed

lemma join_names_cases:
  "join_names Missing = Inr ''No especificado''"
  "join_names Null = Inl TypeError"
  "join_names (Val xs) = Inr (py_join '', '' xs)"
  by (simp_all add: join_names_def no_especificado_def)

text \<open>
  C9, as amended. The simulated summary does not depend on the list of actions. When the
  registration key, the office and the two lists of names are each either missing or
  given, the result is the three-paragraph text with the registration key, the office
  and the claimants' and respondents' names joined by a comma and a space, where a missing
  entry is printed as \<^verbatim>\<open>No especificado\<close>.
\<close>

theorem resumen_simulado_plantilla:
  "generar_resumen_simulado detalle acts = generar_resumen_simulado detalle []
   \<and> (d_llaveProceso detalle \<noteq> Null \<and> d_despacho detalle \<noteq> Null
        \<and> d_demandantes detalle \<noteq> Null \<and> d_demandados detalle \<noteq> Null \<longrightarrow>
      generar_resumen_simulado detalle acts =
        Inr (resumen_texto
              (case d_llaveProceso detalle of Val s \<Rightarrow> s | _ \<Rightarrow> ''No especificado'')
              (case d_despacho detalle of Val s \<Rightarrow> s | _ \<Rightarrow> ''No especificado'')
              (case d_demandantes detalle of Val xs \<Rightarrow> py_join '', '' xs
                                          | _ \<Rightarrow> ''No especificado'')
              (case d_demandados detalle of Val xs \<Rightarrow> py_join '', '' xs
                                         | _ \<Rightarrow> ''No especificado'')))"
  (is "?indep \<and> (?given \<longrightarrow> ?text)")
proof (intro conjI impI)
  show ?indep
    by (simp add: generar_resumen_simulado_def)
next
  assume ?given
  then show ?text
    by (cases "d_llaveProceso detalle"; cases "d_despacho detalle";
        cases "d_demandantes detalle"; cases "d_demandados detalle")
       (simp_all add: generar_resumen_simulado_def join_names_cases py_strip_resumen
          no_especificado_def)
qed

theorem resumen_simulado_plantilla_witness:
  "Val ''11001400300320230051800'' \<noteq> (Null :: string field)
   \<and> (Missing :: string field) \<noteq> Null
   \<and> Val [''ACME SAS'', ''Juan Perez''] \<noteq> (Null :: string list field)
   \<and> (Missing :: string list field) \<noteq> Null
   \<and> generar_resumen_simulado
        \<lparr>d_llaveProceso = Val ''11001400300320230051800'', d_despacho = Missing,
         d_claseProceso = Missing, d_tipoProceso = Missing, d_subTipoProceso = Missing,
         d_ubicacionExpediente = Missing, d_esPrivado = Missing,
         d_demandantes = Val [''ACME SAS'', ''Juan Perez''], d_demandados = Missing\<rparr> []
      = Inr (resumen_texto ''11001400300320230051800'' ''No especificado''
               ''ACME SAS, Juan Perez'' ''No especificado'')"
  using resumen_simulado_plantilla
    [of "\<lparr>d_llaveProceso = Val ''11001400300320230051800'', d_despacho = Missing,
         d_claseProceso = Missing, d_tipoProceso = Missing, d_subTipoProceso = Missing,
         d_ubicacionExpediente = Missing, d_esPrivado = Missing,
         d_demandantes = Val [''ACME SAS'', ''Juan Perez''], d_demandados = Missing\<rparr>" "[]"]
  by simp

text \<open>
  The summary of a process with one action is the summary without it, and holds neither
  the date, the label nor the annotation of the action.
\<close>

theorem resumen_sin_actuaciones_counterexample:
  "generar_resumen_simulado
     \<lparr>d_llaveProceso = Missing, d_despacho = Missing, d_claseProceso = Missing,
      d_tipoProceso = Missing, d_subTipoProceso = Missing, d_ubicacionExpediente = Missing,
      d_esPrivado = Missing, d_demandantes = Missing, d_demandados = Missing\<rparr>
     [\<lparr>a_idRegActuacion = Val ''A1'', a_consActuacion = Val 7,
       a_fechaActuacion = Val ''2024-03-15'', a_actuacion = Val ''AUTO ADMITE DEMANDA'',
       a_anotacion = Val ''Se admite la demanda'', a_fechaInicial = Null,
       a_fechaFinal = Null, a_fechaRegistro = Missing, a_conDocumentos = Val False\<rparr>]
   = Inr (resumen_texto ''No especificado'' ''No especificado'' ''No especificado''
            ''No especificado'')
   \<and> \<not> py_in ''2024-03-15''
        (resumen_texto ''No especificado'' ''No especificado'' ''No especificado''
           ''No especificado'')
   \<and> \<not> py_in ''AUTO ADMITE DEMANDA''
        (resumen_texto ''No especificado'' ''No especificado'' ''No especificado''
           ''No especificado'')
   \<and> \<not> py_in ''Se admite la demanda''
        (resumen_texto ''No especificado'' ''No especificado'' ''No especificado''
           ''No especificado'')"
proof -
  have "\<not> py_in ''2024-03-15''
        (resumen_texto ''No especificado'' ''No especificado'' ''No especificado''
           ''No especificado'')"
    by (simp add: resumen_texto_def)
  moreover have "\<not> py_in ''AUTO ADMITE DEMANDA''
        (resumen_texto ''No especificado'' ''No especificado'' ''No especificado''
           ''No especificado'')"
    by (simp add: resumen_texto_def)
  moreover have "\<not> py_in ''Se admite la demanda''
        (resumen_texto ''No especificado'' ''No especificado'' ''No especificado''
           ''No especificado'')"
    by (simp add: resumen_texto_def)
  moreover have "generar_resumen_simulado
     \<lparr>d_llaveProceso = Missing, d_despacho = Missing, d_claseProceso = Missing,
      d_tipoProceso = Missing, d_subTipoProceso = Missing, d_ubicacionExpediente = Missing,
      d_esPrivado = Missing, d_demandantes = Missing, d_demandados = Missing\<rparr>
     [\<lparr>a_idRegActuacion = Val ''A1'', a_consActuacion = Val 7,
       a_fechaActuacion = Val ''2024-03-15'', a_actuacion = Val ''AUTO ADMITE DEMANDA'',
       a_anotacion = Val ''Se admite la demanda'', a_fechaInicial = Null,
       a_fechaFinal = Null, a_fechaRegistro = Missing, a_conDocumentos = Val False\<rparr>]
   = Inr (resumen_texto ''No especificado'' ''No especificado'' ''No especificado''
            ''No especificado'')"
    by (simp add: generar_resumen_simulado_def join_names_cases py_strip_resumen
        no_especificado_def)
  ultimately show ?thesis by blast
qed

section \<open>Properties of the registry client\<close>

lemma py_in_append_left: "py_in p s \<Longrightarrow> py_in p (a @ s)"
  unfolding py_in_iff
proof -
  assume "\<exists>x y. s = x @ p @ y"
  then obtain x y where "s = x @ p @ y" by auto
  then have "a @ s = (a @ x) @ p @ y" by simp
  then show "\<exists>x y. a @ s = x @ p @ y" by blast
qed

text \<open>
  C5, as amended. When the registry answers a search by party name with an HTTP error or
  another request error, the caller gets the distinguished error, whose text asks for an
  office code or a more specific name, exactly when the text of the error, with the
  \<^verbatim>\<open>Message\<close> of the reply's body appended, contains the whole phrase
  \<^verbatim>\<open>Hay mas de mil registros con los criterios especificados\<close> (a with accent); otherwise it
  gets the generic error with that text. So a \<^verbatim>\<open>Message\<close> that contains the phrase is always
  reported as the distinguished error. Only the text decides.
\<close>

theorem consulta_demasiado_general_por_texto:
  "(session_get (BASE_URL @ ''/Procesos/Consulta/NombreRazonSocial'')
       \<lparr>q_nombre = nom, q_tipoPersona = tipo, q_SoloActivos = solo_activos,
        q_codificacionDespacho = codificacion_despacho, q_pagina = pagina\<rparr> = reply
    \<and> (reply = HTTPError e (JsonObject (Val message)) \<and> texto = e @ '' - '' @ message
       \<or> reply = HTTPError e (JsonObject Missing) \<and> texto = e
       \<or> reply = HTTPError e Unreadable \<and> texto = e
       \<or> reply = RequestException e \<and> texto = e)
    \<longrightarrow>
      consultar_por_razon_social session_get nom tipo solo_activos
          codificacion_despacho pagina =
        (if \<exists>x y. ''Error en la consulta a la API: '' @ texto =
                x @ (''Hay m'' @ [a_acute]
                     @ ''s de mil registros con los criterios especificados'') @ y
         then Inl (Exception
                (''La consulta es demasiado general. Por favor, especifique un c''
                 @ [o_acute] @ ''digo de despacho o un nombre m'' @ [a_acute] @ ''s espec''
                 @ [i_acute] @ ''fico.''))
         else Inl (Exception (''Error en la consulta a la API: '' @ texto))))
   \<and> (session_get (BASE_URL @ ''/Procesos/Consulta/NombreRazonSocial'')
       \<lparr>q_nombre = nom, q_tipoPersona = tipo, q_SoloActivos = solo_activos,
        q_codificacionDespacho = codificacion_despacho, q_pagina = pagina\<rparr>
        = HTTPError e (JsonObject (Val message))
      \<and> message = x @ (''Hay m'' @ [a_acute]
                        @ ''s de mil registros con los criterios especificados'') @ y
    \<longrightarrow>
      consultar_por_razon_social session_get nom tipo solo_activos
          codificacion_despacho pagina =
        Inl (Exception
                (''La consulta es demasiado general. Por favor, especifique un c''
                 @ [o_acute] @ ''digo de despacho o un nombre m'' @ [a_acute] @ ''s espec''
                 @ [i_acute] @ ''fico.'')))"
  (is "(?given \<longrightarrow> ?decided) \<and> (?broad \<longrightarrow> ?reported)")
proof (intro conjI impI)
  assume g: ?given
  have mr: "make_request session_get ''Procesos/Consulta/NombreRazonSocial''
       \<lparr>q_nombre = nom, q_tipoPersona = tipo, q_SoloActivos = solo_activos,
        q_codificacionDespacho = codificacion_despacho, q_pagina = pagina\<rparr>
      = Inl (Exception (''Error en la consulta a la API: '' @ texto))"
    using g by (auto simp add: make_request_def)
  have ph: "py_in mas_de_mil_registros t \<longleftrightarrow>
      (\<exists>x y. t = x @ (''Hay m'' @ [a_acute]
                     @ ''s de mil registros con los criterios especificados'') @ y)" for t
    unfolding py_in_iff mas_de_mil_registros_def by (rule refl)
  have "consultar_por_razon_social session_get nom tipo solo_activos
          codificacion_despacho pagina =
        (if py_in mas_de_mil_registros (''Error en la consulta a la API: '' @ texto)
         then Inl (Exception consulta_demasiado_general)
         else Inl (Exception (''Error en la consulta a la API: '' @ texto)))"
    unfolding consultar_por_razon_social_def Let_def mr by simp
  then show ?decided
    unfolding ph consulta_demasiado_general_def .
next
  assume b: ?broad
  have "py_in mas_de_mil_registros message"
    unfolding py_in_iff mas_de_mil_registros_def using b by blast
  then have "py_in mas_de_mil_registros
      (''Error en la consulta a la API: '' @ e @ '' - '' @ message)"
    by (intro py_in_append_left)
  then show ?reported
    using b unfolding consultar_por_razon_social_def make_request_def Let_def
    by (simp add: consulta_demasiado_general_def del: py_in.simps)
qed

theorem consulta_demasiado_general_por_texto_witness:
  "consultar_por_razon_social
     (respuesta_fija (HTTPError ''400 Client Error: Bad Request''
        (JsonObject (Val (''Hay m'' @ [a_acute]
           @ ''s de mil registros con los criterios especificados, por favor revise''))))
       :: string \<Rightarrow> consulta_params \<Rightarrow> unit http_reply)
     ''ACME'' ''jur'' True [] 1
   = Inl (Exception
           (''La consulta es demasiado general. Por favor, especifique un c''
            @ [o_acute] @ ''digo de despacho o un nombre m'' @ [a_acute] @ ''s espec''
            @ [i_acute] @ ''fico.''))"
proof -
  have r: "respuesta_fija (HTTPError ''400 Client Error: Bad Request''
        (JsonObject (Val (''Hay m'' @ [a_acute]
           @ ''s de mil registros con los criterios especificados, por favor revise''))))
       (BASE_URL @ ''/Procesos/Consulta/NombreRazonSocial'')
       \<lparr>q_nombre = ''ACME'', q_tipoPersona = ''jur'', q_SoloActivos = True,
        q_codificacionDespacho = [], q_pagina = 1\<rparr>
     = (HTTPError ''400 Client Error: Bad Request''
        (JsonObject (Val (''Hay m'' @ [a_acute]
           @ ''s de mil registros con los criterios especificados, por favor revise'')))
        :: unit http_reply)"
    by (simp add: respuesta_fija_def)
  have m: "''Hay m'' @ [a_acute]
           @ ''s de mil registros con los criterios especificados, por favor revise''
     = [] @ (''Hay m'' @ [a_acute]
                        @ ''s de mil registros con los criterios especificados'')
         @ '', por favor revise''"
    by simp
  let ?sg = "respuesta_fija (HTTPError ''400 Client Error: Bad Request''
        (JsonObject (Val (''Hay m'' @ [a_acute]
           @ ''s de mil registros con los criterios especificados, por favor revise''))))
       :: string \<Rightarrow> consulta_params \<Rightarrow> unit http_reply"
  show ?thesis
    using r m consulta_demasiado_general_por_texto
      [where session_get = ?sg and nom = "''ACME''" and tipo = "''jur''"
         and solo_activos = True and codificacion_despacho = "[]" and pagina = 1
         and e = "''400 Client Error: Bad Request''"
         and message = "''Hay m'' @ [a_acute]
           @ ''s de mil registros con los criterios especificados, por favor revise''"
         and x = "[]" and y = "'', por favor revise''"]
    by blast
qed

text \<open>
  A \<^verbatim>\<open>Message\<close> with the words \<^verbatim>\<open>Hay mas de mil registros\<close> but not the rest of the phrase
  is reported as the generic error.
\<close>

theorem consulta_mil_registros_counterexample:
  "consultar_por_razon_social
     (respuesta_fija (HTTPError ''400 Client Error: Bad Request''
        (JsonObject (Val (''Hay m'' @ [a_acute] @ ''s de mil registros''))))
       :: string \<Rightarrow> consulta_params \<Rightarrow> unit http_reply)
     ''ACME'' ''jur'' True [] 1
   = Inl (Exception (''Error en la consulta a la API: 400 Client Error: Bad Request - Hay m''
           @ [a_acute] @ ''s de mil registros''))"
  by (simp add: consultar_por_razon_social_def make_request_def respuesta_fija_def
      mas_de_mil_registros_def)

section \<open>Properties of the persistence coordinator\<close>

lemma find_None_keys:
  "(find (\<lambda>r. key r = k) rows = None) \<longleftrightarrow> k \<notin> set (map key rows)"
  by (auto simp: find_None_iff)

text \<open>
  C6. Attaching a classification to an action identifier that no stored action has
  returns \<^verbatim>\<open>None\<close>, the signal for a missing parent, as a value, and the store is the one
  before the call.
\<close>

theorem clasificacion_sin_actuacion:
  "Some id_reg \<notin> set (map id_reg_actuacion (actuaciones db)) \<longrightarrow>
     guardar_clasificacion_actuacion db id_reg clasificacion = (None, db)"
  by (simp add: guardar_clasificacion_actuacion_def find_None_keys [THEN iffD2])

theorem clasificacion_sin_actuacion_witness:
  "Some ''A2'' \<notin> set (map id_reg_actuacion
       (actuaciones (db_ejemplo
          \<lparr>actuaciones := [nueva_actuacion fromiso_none 1 proceso_ejemplo actuacion_ejemplo]\<rparr>)))
   \<and> guardar_clasificacion_actuacion
        (db_ejemplo
          \<lparr>actuaciones := [nueva_actuacion fromiso_none 1 proceso_ejemplo actuacion_ejemplo]\<rparr>)
        ''A2'' clasificacion_audiencia
      = (None,
         db_ejemplo
          \<lparr>actuaciones := [nueva_actuacion fromiso_none 1 proceso_ejemplo actuacion_ejemplo]\<rparr>)"
proof -
  let ?db = "db_ejemplo
          \<lparr>actuaciones := [nueva_actuacion fromiso_none 1 proceso_ejemplo actuacion_ejemplo]\<rparr>"
  have h: "Some ''A2'' \<notin> set (map id_reg_actuacion (actuaciones ?db))"
    by (simp add: nueva_actuacion_def actuacion_ejemplo_def)
  show ?thesis
    using h clasificacion_sin_actuacion [of "''A2''" ?db clasificacion_audiencia]
    by blast
qed

text \<open>
  C7, as amended. On a stored process the detail record overwrites the class, type,
  subtype and file location with its values (\<^verbatim>\<open>NULL\<close> for a key that is missing) and the
  privacy flag with its value (false for a missing key); the claimants and the
  respondents are overwritten, by the JSON text of the list, only when the detail record
  has the key, and keep their stored value otherwise; every other column and every
  other table stays. For a process identifier that no stored process has, the call
  returns \<^verbatim>\<open>None\<close> and the store is the one before the call.
\<close>

theorem detalle_sobrescribe:
  "(find (\<lambda>r. id_proceso_api r = Some id_api) (procesos db) = Some proceso \<longrightarrow>
      guardar_detalle_proceso db id_api detalle =
        (Some (proceso
           \<lparr>clase_proceso := dict_get (d_claseProceso detalle),
            tipo_proceso := dict_get (d_tipoProceso detalle),
            subtipo_proceso := dict_get (d_subTipoProceso detalle),
            ubicacion_expediente := dict_get (d_ubicacionExpediente detalle),
            es_privado := dict_get_default (d_esPrivado detalle) False,
            demandantes :=
              (if has_key (d_demandantes detalle)
               then Some (json_dumps (dict_get (d_demandantes detalle)))
               else demandantes proceso),
            demandados :=
              (if has_key (d_demandados detalle)
               then Some (json_dumps (dict_get (d_demandados detalle)))
               else demandados proceso)\<rparr>),
         db\<lparr>procesos := update_proceso
           (proceso
           \<lparr>clase_proceso := dict_get (d_claseProceso detalle),
            tipo_proceso := dict_get (d_tipoProceso detalle),
            subtipo_proceso := dict_get (d_subTipoProceso detalle),
            ubicacion_expediente := dict_get (d_ubicacionExpediente detalle),
            es_privado := dict_get_default (d_esPrivado detalle) False,
            demandantes :=
              (if has_key (d_demandantes detalle)
               then Some (json_dumps (dict_get (d_demandantes detalle)))
               else demandantes proceso),
            demandados :=
              (if has_key (d_demandados detalle)
               then Some (json_dumps (dict_get (d_demandados detalle)))
               else demandados proceso)\<rparr>) (procesos db)\<rparr>))
   \<and> (Some id_api \<notin> set (map id_proceso_api (procesos db)) \<longrightarrow>
        guardar_detalle_proceso db id_api detalle = (None, db))"
  by (simp add: guardar_detalle_proceso_def find_None_keys [THEN iffD2] Let_def)

theorem detalle_sobrescribe_witness:
  "find (\<lambda>r. id_proceso_api r = Some ''P1'') (procesos db_ejemplo) = Some proceso_ejemplo
   \<and> guardar_detalle_proceso db_ejemplo ''P1'' detalle_ejemplo =
        (Some (proceso_ejemplo
           \<lparr>clase_proceso := Some ''Ejecutivo'', ubicacion_expediente := Some ''Secretaria'',
            demandados := Some (''['' @ [CHR 0x22] @ ''Juan Perez'' @ [CHR 0x22] @ '']'')\<rparr>),
         db_ejemplo\<lparr>procesos := [proceso_ejemplo
           \<lparr>clase_proceso := Some ''Ejecutivo'', ubicacion_expediente := Some ''Secretaria'',
            demandados := Some (''['' @ [CHR 0x22] @ ''Juan Perez'' @ [CHR 0x22] @ '']'')\<rparr>]\<rparr>)
   \<and> Some ''P2'' \<notin> set (map id_proceso_api (procesos db_ejemplo))
   \<and> guardar_detalle_proceso db_ejemplo ''P2'' detalle_ejemplo = (None, db_ejemplo)"
proof -
  have f: "find (\<lambda>r. id_proceso_api r = Some ''P1'') (procesos db_ejemplo) = Some proceso_ejemplo"
    by (simp add: db_ejemplo_def proceso_ejemplo_def)
  have n: "Some ''P2'' \<notin> set (map id_proceso_api (procesos db_ejemplo))"
    by (simp add: db_ejemplo_def proceso_ejemplo_def)
  have a: "guardar_detalle_proceso db_ejemplo ''P1'' detalle_ejemplo =
        (Some (proceso_ejemplo
           \<lparr>clase_proceso := Some ''Ejecutivo'', ubicacion_expediente := Some ''Secretaria'',
            demandados := Some (''['' @ [CHR 0x22] @ ''Juan Perez'' @ [CHR 0x22] @ '']'')\<rparr>),
         db_ejemplo\<lparr>procesos := [proceso_ejemplo
           \<lparr>clase_proceso := Some ''Ejecutivo'', ubicacion_expediente := Some ''Secretaria'',
            demandados := Some (''['' @ [CHR 0x22] @ ''Juan Perez'' @ [CHR 0x22] @ '']'')\<rparr>]\<rparr>)"
    using detalle_sobrescribe [of "''P1''" db_ejemplo proceso_ejemplo detalle_ejemplo,
        THEN conjunct1, rule_format, OF f]
    by (simp add: db_ejemplo_def proceso_ejemplo_def detalle_ejemplo_def update_proceso_def
        json_string_def json_escape_char_def)
  have b: "guardar_detalle_proceso db_ejemplo ''P2'' detalle_ejemplo = (None, db_ejemplo)"
    using detalle_sobrescribe [of "''P2''" db_ejemplo proceso_ejemplo detalle_ejemplo,
        THEN conjunct2, rule_format, OF n] .
  show ?thesis using f n a b by blast
qed

text \<open>
  A detail record without the key \<^verbatim>\<open>demandantes\<close> leaves the stored claimants as they
  were.
\<close>

theorem detalle_demandantes_counterexample:
  "d_demandantes detalle_ejemplo = Missing
   \<and> demandantes proceso_ejemplo = Some (''['' @ [CHR 0x22] @ ''ACME SAS'' @ [CHR 0x22] @ '']'')
   \<and> map_option demandantes (fst (guardar_detalle_proceso db_ejemplo ''P1'' detalle_ejemplo))
       = Some (Some (''['' @ [CHR 0x22] @ ''ACME SAS'' @ [CHR 0x22] @ '']''))"
  by (simp add: guardar_detalle_proceso_def db_ejemplo_def proceso_ejemplo_def
      detalle_ejemplo_def json_string_def json_escape_char_def Let_def)

subsection \<open>Updating a stored process\<close>

text \<open>
  A date read back from the store is naive; a naive date, such as the ones \<^verbatim>\<open>strptime\<close>
  and \<^verbatim>\<open>datetime.now()\<close> give, is read back as it was written.
\<close>

lemma sqlite_datetime_naive: "dt_utcoffset (sqlite_datetime d) = None"
  by (simp add: sqlite_datetime_def)

lemma sqlite_datetime_id: "dt_utcoffset d = None \<Longrightarrow> sqlite_datetime d = d"
  by (simp add: sqlite_datetime_def)

lemma sqlite_datetime_midnight: "sqlite_datetime (midnight y m d) = midnight y m d"
  by (simp add: sqlite_datetime_def midnight_def)

lemma fold_max_ge: "(a::nat) \<le> fold max xs a"
  by (induction xs arbitrary: a) (auto intro: order_trans [OF max.cobounded2])

lemma fold_max_upper: "x \<in> set xs \<Longrightarrow> (x::nat) \<le> fold max xs a"
proof (induction xs arbitrary: a)
  case Nil
  then show ?case by simp
next
  case (Cons y ys)
  show ?case
  proof (cases "x = y")
    case True
    have "y \<le> max y a" by simp
    also have "\<dots> \<le> fold max ys (max y a)" by (rule fold_max_ge)
    finally show ?thesis using True by simp
  next
    case False
    then have "x \<in> set ys" using Cons.prems by simp
    then show ?thesis using Cons.IH by simp
  qed
qed

lemma next_id_fresh: "next_id ids \<notin> set ids"
proof
  assume "next_id ids \<in> set ids"
  then have "next_id ids \<le> fold max ids 0" by (rule fold_max_upper)
  then show False by (simp add: next_id_def)
qed

lemma find_append_rows:
  "find P (xs @ ys) = (case find P xs of Some x \<Rightarrow> Some x | None \<Rightarrow> find P ys)"
  by (induction xs) auto

lemma find_Some_mem: "find P xs = Some x \<Longrightarrow> x \<in> set xs \<and> P x"
  by (induction xs) (auto split: if_splits)

lemma update_proceso_keys:
  "map pro_id (update_proceso p rows) = map pro_id rows"
  by (induction rows) (auto simp: update_proceso_def)

lemma update_proceso_length: "length (update_proceso p rows) = length rows"
  by (simp add: update_proceso_def)

lemma update_proceso_ids:
  assumes "distinct (map pro_id rows)" "e \<in> set rows" "pro_id p = pro_id e"
    "id_proceso_api p = id_proceso_api e"
  shows "map id_proceso_api (update_proceso p rows) = map id_proceso_api rows"
proof -
  have "\<And>r. r \<in> set rows \<Longrightarrow> pro_id r = pro_id p \<Longrightarrow> r = e"
    using assms(1,2,3) by (metis distinct_map inj_onD)
  then have "\<And>r. r \<in> set rows \<Longrightarrow>
      id_proceso_api (if pro_id r = pro_id p then p else r) = id_proceso_api r"
    using assms(4) by auto
  then show ?thesis by (simp add: update_proceso_def)
qed

lemma update_proceso_find:
  assumes "distinct (map pro_id rows)" "find (\<lambda>r. id_proceso_api r = k) rows = Some e"
    "pro_id p = pro_id e" "id_proceso_api p = id_proceso_api e"
  shows "find (\<lambda>r. id_proceso_api r = k) (update_proceso p rows) = Some p"
  using assms
proof (induction rows)
  case Nil
  then show ?case by simp
next
  case (Cons r rows)
  show ?case
  proof (cases "id_proceso_api r = k")
    case True
    then have "r = e" using Cons.prems(2) by simp
    then show ?thesis using True Cons.prems(3,4) by (simp add: update_proceso_def)
  next
    case False
    then have f: "find (\<lambda>r. id_proceso_api r = k) rows = Some e" using Cons.prems(2) by simp
    then have "e \<in> set rows" by (auto dest: find_Some_mem)
    then have "pro_id r \<noteq> pro_id e" using Cons.prems(1) by auto
    moreover have "find (\<lambda>r. id_proceso_api r = k) (update_proceso p rows) = Some p"
      using Cons.IH [OF _ f Cons.prems(3,4)] Cons.prems(1) by simp
    ultimately show ?thesis using False Cons.prems(3)
      by (simp add: update_proceso_def)
  qed
qed

lemma unique_keys_filter:
  assumes "unique_keys (map key rows)" "find (\<lambda>r. key r = Some k) rows = Some e"
  shows "filter (\<lambda>r. key r = Some k) rows = [e]"
  using assms
proof (induction rows)
  case Nil
  then show ?case by simp
next
  case (Cons r rows)
  show ?case
  proof (cases "key r = Some k")
    case True
    then have e: "r = e" using Cons.prems(2) by simp
    have "Some k \<notin> set (map key rows)"
      using Cons.prems(1) True by (auto simp: unique_keys_def)
    then have "filter (\<lambda>r. key r = Some k) rows = []"
      by (force simp: filter_empty_conv)
    then show ?thesis using True e by simp
  next
    case False
    then have "find (\<lambda>r. key r = Some k) rows = Some e" using Cons.prems(2) by simp
    moreover have "unique_keys (map key rows)"
      using Cons.prems(1) by (auto simp: unique_keys_def split: if_splits)
    ultimately show ?thesis using Cons.IH False by simp
  qed
qed

lemma guardar_proceso_existente:
  assumes "find (\<lambda>r. id_proceso_api r = dict_get (p_idProceso datos)) (procesos db)
           = Some existente"
  shows "guardar_proceso fromiso now_empresa now db datos hint =
     (Inr (existente
        \<lparr>fecha_ultima_actuacion :=
           (case parse_date fromiso (dict_get (p_fechaUltimaActuacion datos)) of
              Some d \<Rightarrow> Some (sqlite_datetime d)
            | None \<Rightarrow> fecha_ultima_actuacion existente),
         fecha_consulta := Some (sqlite_datetime now)\<rparr>),
      db\<lparr>procesos := update_proceso
        (existente
        \<lparr>fecha_ultima_actuacion :=
           (case parse_date fromiso (dict_get (p_fechaUltimaActuacion datos)) of
              Some d \<Rightarrow> Some (sqlite_datetime d)
            | None \<Rightarrow> fecha_ultima_actuacion existente),
         fecha_consulta := Some (sqlite_datetime now)\<rparr>) (procesos db)\<rparr>)"
  using assms
  by (cases "parse_date fromiso (dict_get (p_fechaUltimaActuacion datos))")
     (simp_all add: guardar_proceso_def Let_def)

lemma guardar_empresa_procesos:
  "guardar_empresa now_empresa db de = (res, db') \<Longrightarrow>
     procesos db' = procesos db \<and> actuaciones db' = actuaciones db"
  by (auto simp: guardar_empresa_def Let_def split: option.splits if_splits)

lemma guardar_proceso_nuevo:
  assumes "find (\<lambda>r. id_proceso_api r = dict_get (p_idProceso datos)) (procesos db) = None"
    "guardar_proceso fromiso now_empresa now db datos hint = (Inr p1, db1)"
  shows "procesos db1 = procesos db @ [p1]"
    and "pro_id p1 = next_id (map pro_id (procesos db))"
    and "id_proceso_api p1 = dict_get (p_idProceso datos)"
    and "llave_proceso p1 = dict_get (p_llaveProceso datos)
         \<and> fecha_proceso p1 = datetime_column (parse_date fromiso (dict_get (p_fechaProceso datos)))
         \<and> despacho p1 = dict_get (p_despacho datos)
         \<and> departamento p1 = dict_get (p_departamento datos)
         \<and> sujetos_procesales p1 = dict_get (p_sujetosProcesales datos)
         \<and> resumen_generado p1 = None"
    and "empresa_id p1 =
         (case hint of
            None \<Rightarrow> None
          | Some de \<Rightarrow>
              if empresa_dict_truthy de
              then (case fst (guardar_empresa now_empresa db de) of
                      Inr e \<Rightarrow> Some (emp_id e)
                    | Inl err \<Rightarrow> None)
              else None)"
proof -
  define party where "party =
    (case hint of
       None \<Rightarrow> (Inr None, db)
     | Some de \<Rightarrow>
         if empresa_dict_truthy de
         then (case guardar_empresa now_empresa db de of
                 (Inl err, db') \<Rightarrow> (Inl err, db')
               | (Inr empresa, db') \<Rightarrow> (Inr (Some (emp_id empresa)), db'))
         else (Inr None, db))"
  obtain res db' where p: "party = (res, db')" by (cases party)
  have same: "procesos db' = procesos db"
  proof (cases hint)
    case None
    then show ?thesis using p by (simp add: party_def)
  next
    case (Some de)
    show ?thesis
    proof (cases "empresa_dict_truthy de")
      case False
      then show ?thesis using p Some by (simp add: party_def)
    next
      case True
      obtain r2 db2 where g: "guardar_empresa now_empresa db de = (r2, db2)"
        by (cases "guardar_empresa now_empresa db de")
      then have "db' = db2" using p Some True
        by (cases r2) (simp_all add: party_def)
      then show ?thesis using guardar_empresa_procesos [OF g] by simp
    qed
  qed
  have unfolded: "guardar_proceso fromiso now_empresa now db datos hint =
      (case party of
         (Inl err, db') \<Rightarrow> (Inl err, db')
       | (Inr eid, db') \<Rightarrow>
           (let nuevo = \<lparr>pro_id = next_id (map pro_id (procesos db')),
                          id_proceso_api = dict_get (p_idProceso datos),
                          llave_proceso = dict_get (p_llaveProceso datos),
                          fecha_proceso =
                            datetime_column
                              (parse_date fromiso (dict_get (p_fechaProceso datos))),
                          fecha_ultima_actuacion =
                            datetime_column
                              (parse_date fromiso
                                 (dict_get (p_fechaUltimaActuacion datos))),
                          despacho = dict_get (p_despacho datos),
                          departamento = dict_get (p_departamento datos),
                          sujetos_procesales = dict_get (p_sujetosProcesales datos),
                          clase_proceso = None,
                          tipo_proceso = None,
                          subtipo_proceso = None,
                          ubicacion_expediente = None,
                          es_privado = Some False,
                          demandantes = None,
                          demandados = None,
                          resumen_generado = None,
                          fecha_consulta = Some (sqlite_datetime now),
                          empresa_id = eid\<rparr>
            in (Inr nuevo, db'\<lparr>procesos := procesos db' @ [nuevo]\<rparr>)))"
    using assms(1) by (simp add: guardar_proceso_def party_def Let_def)
  obtain eid where r: "res = Inr eid"
    using assms(2) unfolding unfolded p by (cases res) simp_all
  show "procesos db1 = procesos db @ [p1]"
    using assms(2) unfolding unfolded p r by (auto simp: Let_def same)
  show "pro_id p1 = next_id (map pro_id (procesos db))"
    using assms(2) unfolding unfolded p r by (auto simp: Let_def same)
  show "id_proceso_api p1 = dict_get (p_idProceso datos)"
    using assms(2) unfolding unfolded p r by (auto simp: Let_def same)
  show "llave_proceso p1 = dict_get (p_llaveProceso datos)
         \<and> fecha_proceso p1 = datetime_column (parse_date fromiso (dict_get (p_fechaProceso datos)))
         \<and> despacho p1 = dict_get (p_despacho datos)
         \<and> departamento p1 = dict_get (p_departamento datos)
         \<and> sujetos_procesales p1 = dict_get (p_sujetosProcesales datos)
         \<and> resumen_generado p1 = None"
    using assms(2) unfolding unfolded p r by (auto simp: Let_def same)
  have eid: "eid =
         (case hint of
            None \<Rightarrow> None
          | Some de \<Rightarrow>
              if empresa_dict_truthy de
              then (case fst (guardar_empresa now_empresa db de) of
                      Inr e \<Rightarrow> Some (emp_id e)
                    | Inl err \<Rightarrow> None)
              else None)"
  proof (cases hint)
    case None
    then show ?thesis using p r by (simp add: party_def)
  next
    case (Some de)
    show ?thesis
    proof (cases "empresa_dict_truthy de")
      case False
      then show ?thesis using p r Some by (simp add: party_def)
    next
      case True
      obtain r2 db2 where g: "guardar_empresa now_empresa db de = (r2, db2)"
        by (cases "guardar_empresa now_empresa db de")
      show ?thesis using p r Some True g
        by (cases r2) (simp_all add: party_def)
    qed
  qed
  have "empresa_id p1 = eid"
    using assms(2) unfolding unfolded p r by (auto simp: Let_def same)
  then show "empresa_id p1 =
         (case hint of
            None \<Rightarrow> None
          | Some de \<Rightarrow>
              if empresa_dict_truthy de
              then (case fst (guardar_empresa now_empresa db de) of
                      Inr e \<Rightarrow> Some (emp_id e)
                    | Inl err \<Rightarrow> None)
              else None)"
    using eid by simp
qed

lemma guardar_proceso_find:
  assumes "distinct (map pro_id (procesos db))"
    "unique_keys (map id_proceso_api (procesos db))"
    "guardar_proceso fromiso now_empresa now db datos hint = (Inr p1, db1)"
  shows "find (\<lambda>r. id_proceso_api r = dict_get (p_idProceso datos)) (procesos db1) = Some p1
     \<and> distinct (map pro_id (procesos db1))
     \<and> unique_keys (map id_proceso_api (procesos db1))"
proof (cases "find (\<lambda>r. id_proceso_api r = dict_get (p_idProceso datos)) (procesos db)")
  case (Some existente)
  let ?p = "existente
        \<lparr>fecha_ultima_actuacion :=
           (case parse_date fromiso (dict_get (p_fechaUltimaActuacion datos)) of
              Some d \<Rightarrow> Some (sqlite_datetime d)
            | None \<Rightarrow> fecha_ultima_actuacion existente),
         fecha_consulta := Some (sqlite_datetime now)\<rparr>"
  have r: "p1 = ?p" "procesos db1 = update_proceso ?p (procesos db)"
    using guardar_proceso_existente [OF Some, of fromiso now_empresa now hint] assms(3) by auto
  have k: "pro_id ?p = pro_id existente" "id_proceso_api ?p = id_proceso_api existente"
    by simp_all
  have m: "existente \<in> set (procesos db)" using Some by (auto dest: find_Some_mem)
  show ?thesis
    unfolding r
    using update_proceso_find [OF assms(1) Some k] update_proceso_keys [of ?p "procesos db"]
      update_proceso_ids [OF assms(1) m k] assms(1,2)
    by simp
next
  case None
  have d: "procesos db1 = procesos db @ [p1]"
    and pk: "pro_id p1 = next_id (map pro_id (procesos db))"
    and ek: "id_proceso_api p1 = dict_get (p_idProceso datos)"
    using guardar_proceso_nuevo [OF None assms(3)] by simp_all
  have fresh: "pro_id p1 \<notin> set (map pro_id (procesos db))"
    using next_id_fresh [of "map pro_id (procesos db)"] pk by simp
  have newkey: "id_proceso_api p1 \<notin> set (map id_proceso_api (procesos db))"
    using None ek by (simp add: find_None_keys)
  have "find (\<lambda>r. id_proceso_api r = dict_get (p_idProceso datos)) (procesos db @ [p1])
        = Some p1"
    using None ek by (simp add: find_append_rows)
  moreover have "distinct (map pro_id (procesos db @ [p1]))"
    using assms(1) fresh by simp
  moreover have "unique_keys (map id_proceso_api (procesos db @ [p1]))"
    using assms(2) newkey by (auto simp: unique_keys_def)
  ultimately show ?thesis using d by simp
qed

text \<open>
  C10. When the store holds a process with the payload's identifier, \<open>guardar_proceso\<close>
  returns that row refreshed from the store, with the time of the call as consultation
  date and, only when the payload's date of last action parses, with that date as the
  DateTime column of SQLite reads it back (without its UTC offset); a missing, null or empty date,
  like any date that does not parse, keeps the stored one. Every other column of the row,
  the link to the party among them, is as it was; the party hint is not read, and the
  tables of parties and of actions are the ones before the call.
\<close>

theorem proceso_existente_solo_fechas:
  "find (\<lambda>r. id_proceso_api r = dict_get (p_idProceso datos)) (procesos db) = Some existente
   \<longrightarrow>
     (\<exists>p'. guardar_proceso fromiso now_empresa now db datos hint =
             (Inr p', db\<lparr>procesos := update_proceso p' (procesos db)\<rparr>)
        \<and> p' = existente\<lparr>fecha_ultima_actuacion := fecha_ultima_actuacion p',
                          fecha_consulta := Some (sqlite_datetime now)\<rparr>
        \<and> fecha_ultima_actuacion p' =
            (case parse_date fromiso (dict_get (p_fechaUltimaActuacion datos)) of
               Some d \<Rightarrow> Some (sqlite_datetime d)
             | None \<Rightarrow> fecha_ultima_actuacion existente)
        \<and> (p_fechaUltimaActuacion datos = Missing \<or> p_fechaUltimaActuacion datos = Null
             \<or> p_fechaUltimaActuacion datos = Val [] \<longrightarrow>
            fecha_ultima_actuacion p' = fecha_ultima_actuacion existente)
        \<and> empresa_id p' = empresa_id existente)"
proof
  assume f: "find (\<lambda>r. id_proceso_api r = dict_get (p_idProceso datos)) (procesos db)
             = Some existente"
  let ?p = "existente
        \<lparr>fecha_ultima_actuacion :=
           (case parse_date fromiso (dict_get (p_fechaUltimaActuacion datos)) of
              Some d \<Rightarrow> Some (sqlite_datetime d)
            | None \<Rightarrow> fecha_ultima_actuacion existente),
         fecha_consulta := Some (sqlite_datetime now)\<rparr>"
  have a: "guardar_proceso fromiso now_empresa now db datos hint =
             (Inr ?p, db\<lparr>procesos := update_proceso ?p (procesos db)\<rparr>)"
    by (rule guardar_proceso_existente [OF f])
  have b: "?p = existente\<lparr>fecha_ultima_actuacion := fecha_ultima_actuacion ?p,
                          fecha_consulta := Some (sqlite_datetime now)\<rparr>"
    by simp
  have c: "fecha_ultima_actuacion ?p =
            (case parse_date fromiso (dict_get (p_fechaUltimaActuacion datos)) of
               Some d \<Rightarrow> Some (sqlite_datetime d)
             | None \<Rightarrow> fecha_ultima_actuacion existente)"
    by simp
  have d: "p_fechaUltimaActuacion datos = Missing \<or> p_fechaUltimaActuacion datos = Null
             \<or> p_fechaUltimaActuacion datos = Val [] \<longrightarrow>
            fecha_ultima_actuacion ?p = fecha_ultima_actuacion existente"
    by (auto simp: parse_date_def)
  have e: "empresa_id ?p = empresa_id existente" by simp
  show "\<exists>p'. guardar_proceso fromiso now_empresa now db datos hint =
             (Inr p', db\<lparr>procesos := update_proceso p' (procesos db)\<rparr>)
        \<and> p' = existente\<lparr>fecha_ultima_actuacion := fecha_ultima_actuacion p',
                          fecha_consulta := Some (sqlite_datetime now)\<rparr>
        \<and> fecha_ultima_actuacion p' =
            (case parse_date fromiso (dict_get (p_fechaUltimaActuacion datos)) of
               Some d \<Rightarrow> Some (sqlite_datetime d)
             | None \<Rightarrow> fecha_ultima_actuacion existente)
        \<and> (p_fechaUltimaActuacion datos = Missing \<or> p_fechaUltimaActuacion datos = Null
             \<or> p_fechaUltimaActuacion datos = Val [] \<longrightarrow>
            fecha_ultima_actuacion p' = fecha_ultima_actuacion existente)
        \<and> empresa_id p' = empresa_id existente"
    using a b c d e by (intro exI [of _ ?p] conjI)
qed

theorem proceso_existente_solo_fechas_witness:
  "find (\<lambda>r. id_proceso_api r = dict_get (p_idProceso (datos_proceso_cambiado
            \<lparr>p_fechaUltimaActuacion := Null\<rparr>))) (procesos db_ejemplo)
     = Some proceso_ejemplo
   \<and> p_fechaUltimaActuacion (datos_proceso_cambiado\<lparr>p_fechaUltimaActuacion := Null\<rparr>) = Null
   \<and> guardar_proceso fromiso_none (midnight 2024 4 1) (midnight 2024 4 1) db_ejemplo
        (datos_proceso_cambiado\<lparr>p_fechaUltimaActuacion := Null\<rparr>)
        (Some datos_empresa_ejemplo)
      = (Inr (proceso_ejemplo\<lparr>fecha_consulta := Some (midnight 2024 4 1)\<rparr>),
         db_ejemplo\<lparr>procesos := [proceso_ejemplo\<lparr>fecha_consulta := Some (midnight 2024 4 1)\<rparr>]\<rparr>)"
proof -
  let ?d = "datos_proceso_cambiado\<lparr>p_fechaUltimaActuacion := Null\<rparr>"
  have f: "find (\<lambda>r. id_proceso_api r = dict_get (p_idProceso ?d)) (procesos db_ejemplo)
     = Some proceso_ejemplo"
    by (simp add: datos_proceso_cambiado_def db_ejemplo_def proceso_ejemplo_def)
  have n: "p_fechaUltimaActuacion ?d = Null" by simp
  obtain p' where
    r: "guardar_proceso fromiso_none (midnight 2024 4 1) (midnight 2024 4 1) db_ejemplo ?d
          (Some datos_empresa_ejemplo)
        = (Inr p', db_ejemplo\<lparr>procesos := update_proceso p' (procesos db_ejemplo)\<rparr>)"
    and s: "p' = proceso_ejemplo\<lparr>fecha_ultima_actuacion := fecha_ultima_actuacion p',
                          fecha_consulta := Some (sqlite_datetime (midnight 2024 4 1))\<rparr>"
    and k: "p_fechaUltimaActuacion ?d = Missing \<or> p_fechaUltimaActuacion ?d = Null
             \<or> p_fechaUltimaActuacion ?d = Val [] \<longrightarrow>
            fecha_ultima_actuacion p' = fecha_ultima_actuacion proceso_ejemplo"
    using proceso_existente_solo_fechas
      [where datos = ?d and db = db_ejemplo and existente = proceso_ejemplo
         and fromiso = fromiso_none and now_empresa = "midnight 2024 4 1"
         and now = "midnight 2024 4 1" and hint = "Some datos_empresa_ejemplo"] f
    by blast
  have eq: "fecha_ultima_actuacion p' = fecha_ultima_actuacion proceso_ejemplo"
    using k n by blast
  from s [unfolded eq sqlite_datetime_midnight]
  have p: "p' = proceso_ejemplo\<lparr>fecha_consulta := Some (midnight 2024 4 1)\<rparr>"
    by simp
  have u: "update_proceso p' (procesos db_ejemplo) = [p']"
    by (simp add: update_proceso_def db_ejemplo_def p)
  show ?thesis using f n r unfolding u unfolding p by blast
qed

text \<open>
  C1. Saving a process twice under one identifier, into a store that keeps its
  constraints, leaves exactly one row with that identifier. The second call returns
  the row of the first call with a new consultation date and, when the second payload's
  date of last action parses, a new date of last action: the key, the filing date, the
  office, the department, the parties' summary, the link to the party and the summary
  are the ones of the first call, whatever the second payload and hint hold. When the
  first call inserted the row, these are the values of the first payload, each date as
  the DateTime column of SQLite reads it back (without its UTC offset), and the link is
  the party that \<open>guardar_empresa\<close> returned for the first hint, or none when the hint is
  absent or an empty dictionary. Each call reads the clock once for the consultation date
  and, when it saves a party, once more before. The tables of parties and of actions are
  not changed by the second call.
\<close>

theorem proceso_dos_veces:
  "store_ok db \<and> p_idProceso datos1 = Val pid \<and> p_idProceso datos2 = Val pid
   \<and> guardar_proceso fromiso now_empresa1 now1 db datos1 hint1 = (Inr p1, db1)
   \<longrightarrow>
     (\<exists>p2 db2. guardar_proceso fromiso now_empresa2 now2 db1 datos2 hint2 = (Inr p2, db2)
        \<and> filter (\<lambda>r. id_proceso_api r = Some pid) (procesos db2) = [p2]
        \<and> length (procesos db2) = length (procesos db1)
        \<and> p2 = p1\<lparr>fecha_ultima_actuacion := fecha_ultima_actuacion p2,
                   fecha_consulta := Some (sqlite_datetime now2)\<rparr>
        \<and> fecha_ultima_actuacion p2 =
            (case parse_date fromiso (dict_get (p_fechaUltimaActuacion datos2)) of
               Some d \<Rightarrow> Some (sqlite_datetime d)
             | None \<Rightarrow> fecha_ultima_actuacion p1)
        \<and> llave_proceso p2 = llave_proceso p1 \<and> fecha_proceso p2 = fecha_proceso p1
        \<and> despacho p2 = despacho p1 \<and> departamento p2 = departamento p1
        \<and> sujetos_procesales p2 = sujetos_procesales p1
        \<and> empresa_id p2 = empresa_id p1 \<and> resumen_generado p2 = resumen_generado p1
        \<and> empresas db2 = empresas db1 \<and> actuaciones db2 = actuaciones db1
        \<and> (Some pid \<notin> set (map id_proceso_api (procesos db)) \<longrightarrow>
             llave_proceso p2 = dict_get (p_llaveProceso datos1)
             \<and> fecha_proceso p2 = datetime_column (parse_date fromiso (dict_get (p_fechaProceso datos1)))
             \<and> despacho p2 = dict_get (p_despacho datos1)
             \<and> departamento p2 = dict_get (p_departamento datos1)
             \<and> sujetos_procesales p2 = dict_get (p_sujetosProcesales datos1)
             \<and> resumen_generado p2 = None
             \<and> empresa_id p2 =
                 (case hint1 of
                    None \<Rightarrow> None
                  | Some de \<Rightarrow>
                      if empresa_dict_truthy de
                      then (case fst (guardar_empresa now_empresa1 db de) of
                              Inr e \<Rightarrow> Some (emp_id e)
                            | Inl err \<Rightarrow> None)
                      else None)))"
proof
  assume h: "store_ok db \<and> p_idProceso datos1 = Val pid \<and> p_idProceso datos2 = Val pid
   \<and> guardar_proceso fromiso now_empresa1 now1 db datos1 hint1 = (Inr p1, db1)"
  then have ok: "distinct (map pro_id (procesos db))"
      "unique_keys (map id_proceso_api (procesos db))"
    and i1: "dict_get (p_idProceso datos1) = Some pid"
    and i2: "dict_get (p_idProceso datos2) = Some pid"
    and g: "guardar_proceso fromiso now_empresa1 now1 db datos1 hint1 = (Inr p1, db1)"
    by (simp_all add: store_ok_def)
  have f1: "find (\<lambda>r. id_proceso_api r = Some pid) (procesos db1) = Some p1"
    and ok1: "distinct (map pro_id (procesos db1))"
      "unique_keys (map id_proceso_api (procesos db1))"
    using guardar_proceso_find [OF ok g] i1 by simp_all
  let ?p2 = "p1
        \<lparr>fecha_ultima_actuacion :=
           (case parse_date fromiso (dict_get (p_fechaUltimaActuacion datos2)) of
              Some d \<Rightarrow> Some (sqlite_datetime d)
            | None \<Rightarrow> fecha_ultima_actuacion p1),
         fecha_consulta := Some (sqlite_datetime now2)\<rparr>"
  let ?db2 = "db1\<lparr>procesos := update_proceso ?p2 (procesos db1)\<rparr>"
  have f1': "find (\<lambda>r. id_proceso_api r = dict_get (p_idProceso datos2)) (procesos db1)
             = Some p1"
    using f1 i2 by simp
  have second: "guardar_proceso fromiso now_empresa2 now2 db1 datos2 hint2 = (Inr ?p2, ?db2)"
    by (rule guardar_proceso_existente [OF f1'])
  have f2: "find (\<lambda>r. id_proceso_api r = Some pid) (procesos ?db2) = Some ?p2"
    and ok2: "unique_keys (map id_proceso_api (procesos ?db2))"
    using guardar_proceso_find [OF ok1 second] i2 by simp_all
  have one: "filter (\<lambda>r. id_proceso_api r = Some pid) (procesos ?db2) = [?p2]"
    by (rule unique_keys_filter [OF ok2 f2])
  have len: "length (procesos ?db2) = length (procesos db1)"
    by (simp add: update_proceso_length)
  have first: "Some pid \<notin> set (map id_proceso_api (procesos db)) \<longrightarrow>
             llave_proceso ?p2 = dict_get (p_llaveProceso datos1)
             \<and> fecha_proceso ?p2 = datetime_column (parse_date fromiso (dict_get (p_fechaProceso datos1)))
             \<and> despacho ?p2 = dict_get (p_despacho datos1)
             \<and> departamento ?p2 = dict_get (p_departamento datos1)
             \<and> sujetos_procesales ?p2 = dict_get (p_sujetosProcesales datos1)
             \<and> resumen_generado ?p2 = None
             \<and> empresa_id ?p2 =
                 (case hint1 of
                    None \<Rightarrow> None
                  | Some de \<Rightarrow>
                      if empresa_dict_truthy de
                      then (case fst (guardar_empresa now_empresa1 db de) of
                              Inr e \<Rightarrow> Some (emp_id e)
                            | Inl err \<Rightarrow> None)
                      else None)"
  proof
    assume "Some pid \<notin> set (map id_proceso_api (procesos db))"
    then have "find (\<lambda>r. id_proceso_api r = dict_get (p_idProceso datos1)) (procesos db) = None"
      using i1 by (simp add: find_None_keys)
    from guardar_proceso_nuevo(4) [OF this g] guardar_proceso_nuevo(5) [OF this g]
    show "llave_proceso ?p2 = dict_get (p_llaveProceso datos1)
             \<and> fecha_proceso ?p2 = datetime_column (parse_date fromiso (dict_get (p_fechaProceso datos1)))
             \<and> despacho ?p2 = dict_get (p_despacho datos1)
             \<and> departamento ?p2 = dict_get (p_departamento datos1)
             \<and> sujetos_procesales ?p2 = dict_get (p_sujetosProcesales datos1)
             \<and> resumen_generado ?p2 = None
             \<and> empresa_id ?p2 =
                 (case hint1 of
                    None \<Rightarrow> None
                  | Some de \<Rightarrow>
                      if empresa_dict_truthy de
                      then (case fst (guardar_empresa now_empresa1 db de) of
                              Inr e \<Rightarrow> Some (emp_id e)
                            | Inl err \<Rightarrow> None)
                      else None)"
      by simp
  qed
  show "\<exists>p2 db2. guardar_proceso fromiso now_empresa2 now2 db1 datos2 hint2 = (Inr p2, db2)
        \<and> filter (\<lambda>r. id_proceso_api r = Some pid) (procesos db2) = [p2]
        \<and> length (procesos db2) = length (procesos db1)
        \<and> p2 = p1\<lparr>fecha_ultima_actuacion := fecha_ultima_actuacion p2,
                   fecha_consulta := Some (sqlite_datetime now2)\<rparr>
        \<and> fecha_ultima_actuacion p2 =
            (case parse_date fromiso (dict_get (p_fechaUltimaActuacion datos2)) of
               Some d \<Rightarrow> Some (sqlite_datetime d)
             | None \<Rightarrow> fecha_ultima_actuacion p1)
        \<and> llave_proceso p2 = llave_proceso p1 \<and> fecha_proceso p2 = fecha_proceso p1
        \<and> despacho p2 = despacho p1 \<and> departamento p2 = departamento p1
        \<and> sujetos_procesales p2 = sujetos_procesales p1
        \<and> empresa_id p2 = empresa_id p1 \<and> resumen_generado p2 = resumen_generado p1
        \<and> empresas db2 = empresas db1 \<and> actuaciones db2 = actuaciones db1
        \<and> (Some pid \<notin> set (map id_proceso_api (procesos db)) \<longrightarrow>
             llave_proceso p2 = dict_get (p_llaveProceso datos1)
             \<and> fecha_proceso p2 = datetime_column (parse_date fromiso (dict_get (p_fechaProceso datos1)))
             \<and> despacho p2 = dict_get (p_despacho datos1)
             \<and> departamento p2 = dict_get (p_departamento datos1)
             \<and> sujetos_procesales p2 = dict_get (p_sujetosProcesales datos1)
             \<and> resumen_generado p2 = None
             \<and> empresa_id p2 =
                 (case hint1 of
                    None \<Rightarrow> None
                  | Some de \<Rightarrow>
                      if empresa_dict_truthy de
                      then (case fst (guardar_empresa now_empresa1 db de) of
                              Inr e \<Rightarrow> Some (emp_id e)
                            | Inl err \<Rightarrow> None)
                      else None))"
    apply (rule exI [of _ ?p2])
    apply (rule exI [of _ ?db2])
    apply (intro conjI)
    apply (rule second)
    apply (rule one)
    apply (rule len)
    apply simp_all
    apply (insert first)
    apply simp
    done
qed

theorem proceso_dos_veces_witness:
  "store_ok db_vacia
   \<and> p_idProceso datos_proceso_ejemplo = Val ''P1''
   \<and> p_idProceso datos_proceso_cambiado = Val ''P1''
   \<and> guardar_proceso fromiso_none (midnight 2024 4 1) (midnight 2024 4 1) db_vacia datos_proceso_ejemplo
        (Some datos_empresa_ejemplo) = (Inr proceso_primera_vez, db_primera_vez)
   \<and> Some ''P1'' \<notin> set (map id_proceso_api (procesos db_vacia))
   \<and> (\<exists>p2 db2.
         guardar_proceso fromiso_none (midnight 2024 7 1) (midnight 2024 7 1) db_primera_vez
           datos_proceso_cambiado None = (Inr p2, db2)
         \<and> filter (\<lambda>r. id_proceso_api r = Some ''P1'') (procesos db2) = [p2]
         \<and> p2 = proceso_primera_vez\<lparr>fecha_ultima_actuacion := Some (midnight 2024 6 30),
                                     fecha_consulta := Some (midnight 2024 7 1)\<rparr>
         \<and> llave_proceso p2 = Some ''OTRA LLAVE'' \<and> despacho p2 = Some ''OTRO DESPACHO''
         \<and> departamento p2 = Some ''CALI'' \<and> empresa_id p2 = Some 1
         \<and> empresas db2 = empresas db_primera_vez)"
proof -
  have ok: "store_ok db_vacia"
    by (simp add: store_ok_def db_vacia_def unique_keys_def)
  have i1: "p_idProceso datos_proceso_ejemplo = Val ''P1''"
    by (simp add: datos_proceso_ejemplo_def)
  have i2: "p_idProceso datos_proceso_cambiado = Val ''P1''"
    by (simp add: datos_proceso_cambiado_def)
  have d1: "parse_date fromiso_none (Some ''2020-01-01'') = Some (midnight 2020 1 1)"
    "parse_date fromiso_none (Some ''2024-03-15T00:00:00'') = Some (midnight 2024 3 15)"
    "parse_date fromiso_none (Some ''2024-06-30'') = Some (midnight 2024 6 30)"
    by (simp_all add: parse_date_def is_digit_def is_nonzero_digit_def digit_val_def
        days_in_month_def is_leap_def)
  have g: "guardar_proceso fromiso_none (midnight 2024 4 1) (midnight 2024 4 1) db_vacia datos_proceso_ejemplo
        (Some datos_empresa_ejemplo) = (Inr proceso_primera_vez, db_primera_vez)"
    by (simp add: guardar_proceso_def guardar_empresa_def db_vacia_def
        datos_proceso_ejemplo_def datos_empresa_ejemplo_def empresa_dict_truthy_def
        next_id_def proceso_primera_vez_def db_primera_vez_def d1 Let_def
        sqlite_datetime_midnight)
  have a: "Some ''P1'' \<notin> set (map id_proceso_api (procesos db_vacia))"
    by (simp add: db_vacia_def)
  obtain p2 db2 where
    s: "guardar_proceso fromiso_none (midnight 2024 7 1) (midnight 2024 7 1) db_primera_vez
           datos_proceso_cambiado None = (Inr p2, db2)"
    and one: "filter (\<lambda>r. id_proceso_api r = Some ''P1'') (procesos db2) = [p2]"
    and p: "p2 = proceso_primera_vez\<lparr>fecha_ultima_actuacion := fecha_ultima_actuacion p2,
                   fecha_consulta := Some (sqlite_datetime (midnight 2024 7 1))\<rparr>"
    and f: "fecha_ultima_actuacion p2 =
            (case parse_date fromiso_none
                    (dict_get (p_fechaUltimaActuacion datos_proceso_cambiado)) of
               Some d \<Rightarrow> Some (sqlite_datetime d)
             | None \<Rightarrow> fecha_ultima_actuacion proceso_primera_vez)"
    and e: "empresas db2 = empresas db_primera_vez"
    using proceso_dos_veces
      [where db = db_vacia and ?datos1.0 = datos_proceso_ejemplo and pid = "''P1''"
         and ?datos2.0 = datos_proceso_cambiado and fromiso = fromiso_none
         and ?now_empresa1.0 = "midnight 2024 4 1"
         and ?now1.0 = "midnight 2024 4 1" and ?hint1.0 = "Some datos_empresa_ejemplo"
         and ?p1.0 = proceso_primera_vez and ?db1.0 = db_primera_vez
         and ?now_empresa2.0 = "midnight 2024 7 1"
         and ?now2.0 = "midnight 2024 7 1" and ?hint2.0 = None]
      ok i1 i2 g
    by blast
  have f': "fecha_ultima_actuacion p2 = Some (midnight 2024 6 30)"
    using f by (simp add: datos_proceso_cambiado_def d1 sqlite_datetime_midnight)
  have p': "p2 = proceso_primera_vez\<lparr>fecha_ultima_actuacion := Some (midnight 2024 6 30),
                                     fecha_consulta := Some (midnight 2024 7 1)\<rparr>"
    using p unfolding f' sqlite_datetime_midnight .
  have fields: "llave_proceso p2 = Some ''OTRA LLAVE'' \<and> despacho p2 = Some ''OTRO DESPACHO''
         \<and> departamento p2 = Some ''CALI'' \<and> empresa_id p2 = Some 1"
    unfolding p' by (simp add: proceso_primera_vez_def)
  show ?thesis using ok i1 i2 g a s one p' fields e by blast
qed


subsection \<open>Saving a batch of actions\<close>

lemma unique_insert_ok_iff:
  "unique_insert_ok stored new \<longleftrightarrow>
     distinct (filter (\<lambda>k. k \<noteq> None) new)
     \<and> (\<forall>k \<in> set new. k \<noteq> None \<longrightarrow> k \<notin> set stored)"
  by (induction new arbitrary: stored) auto

lemma unique_keys_append:
  "unique_keys (stored @ new) \<longleftrightarrow>
     unique_keys stored \<and> unique_keys new
     \<and> (\<forall>k \<in> set new. k \<noteq> None \<longrightarrow> k \<notin> set stored)"
  by (auto simp: unique_keys_def)

lemma next_id_above: "x \<in> set ids \<Longrightarrow> x < next_id ids"
  using fold_max_upper [of x ids 0] by (simp add: next_id_def)

lemma loop_ids:
  "actuaciones_loop fromiso stored proceso k acts = (nuevas, res) \<Longrightarrow>
     map id_reg_actuacion res = map (\<lambda>a. dict_get (a_idRegActuacion a)) acts"
  by (induction acts arbitrary: k nuevas res)
     (auto simp: nueva_actuacion_def Let_def split: option.splits prod.splits
        dest: find_Some_mem)

lemma loop_new_ids:
  "actuaciones_loop fromiso stored proceso k acts = (nuevas, res) \<Longrightarrow>
     map id_reg_actuacion nuevas =
       filter (\<lambda>i. i \<notin> set (map id_reg_actuacion stored))
         (map (\<lambda>a. dict_get (a_idRegActuacion a)) acts)"
proof (induction acts arbitrary: k nuevas res)
  case Nil
  then show ?case by simp
next
  case (Cons a acts)
  show ?case
  proof (cases "find (\<lambda>r. id_reg_actuacion r = dict_get (a_idRegActuacion a)) stored")
    case None
    then have n: "dict_get (a_idRegActuacion a) \<notin> set (map id_reg_actuacion stored)"
      by (simp add: find_None_keys)
    obtain n2 r2 where l: "actuaciones_loop fromiso stored proceso (Suc k) acts = (n2, r2)"
      by (cases "actuaciones_loop fromiso stored proceso (Suc k) acts")
    have "nuevas = nueva_actuacion fromiso k proceso a # n2"
      using Cons.prems None l by (simp add: Let_def)
    then show ?thesis using Cons.IH [OF l] n by (simp add: nueva_actuacion_def)
  next
    case (Some e)
    then have n: "dict_get (a_idRegActuacion a) \<in> set (map id_reg_actuacion stored)"
      using find_Some_mem [OF Some] by force
    obtain n2 r2 where l: "actuaciones_loop fromiso stored proceso k acts = (n2, r2)"
      by (cases "actuaciones_loop fromiso stored proceso k acts")
    have "nuevas = n2" using Cons.prems Some l by simp
    then show ?thesis using Cons.IH [OF l] n by simp
  qed
qed

lemma loop_new_keys:
  "actuaciones_loop fromiso stored proceso k acts = (nuevas, res) \<Longrightarrow>
     map act_id nuevas = [k ..< k + length nuevas]"
proof (induction acts arbitrary: k nuevas res)
  case Nil
  then show ?case by simp
next
  case (Cons a acts)
  show ?case
  proof (cases "find (\<lambda>r. id_reg_actuacion r = dict_get (a_idRegActuacion a)) stored")
    case None
    obtain n2 r2 where l: "actuaciones_loop fromiso stored proceso (Suc k) acts = (n2, r2)"
      by (cases "actuaciones_loop fromiso stored proceso (Suc k) acts")
    have "nuevas = nueva_actuacion fromiso k proceso a # n2"
      using Cons.prems None l by (simp add: Let_def)
    then show ?thesis using Cons.IH [OF l]
      by (simp add: nueva_actuacion_def upt_conv_Cons del: upt_Suc)
  next
    case (Some e)
    obtain n2 r2 where l: "actuaciones_loop fromiso stored proceso k acts = (n2, r2)"
      by (cases "actuaciones_loop fromiso stored proceso k acts")
    have "nuevas = n2" using Cons.prems Some l by simp
    then show ?thesis using Cons.IH [OF l] by simp
  qed
qed

lemma loop_rows:
  "actuaciones_loop fromiso stored proceso k acts = (nuevas, res) \<Longrightarrow>
     list_all2
       (\<lambda>a r. case find (\<lambda>e. id_reg_actuacion e = dict_get (a_idRegActuacion a)) stored of
                 Some e \<Rightarrow> r = e
               | None \<Rightarrow> r \<in> set nuevas \<and> (\<exists>n. r = nueva_actuacion fromiso n proceso a))
       acts res"
proof (induction acts arbitrary: k nuevas res)
  case Nil
  then show ?case by simp
next
  case (Cons a acts)
  show ?case
  proof (cases "find (\<lambda>r. id_reg_actuacion r = dict_get (a_idRegActuacion a)) stored")
    case None
    obtain n2 r2 where l: "actuaciones_loop fromiso stored proceso (Suc k) acts = (n2, r2)"
      by (cases "actuaciones_loop fromiso stored proceso (Suc k) acts")
    have e: "nuevas = nueva_actuacion fromiso k proceso a # n2"
      "res = nueva_actuacion fromiso k proceso a # r2"
      using Cons.prems None l by (simp_all add: Let_def)
    have "list_all2
       (\<lambda>a r. case find (\<lambda>e. id_reg_actuacion e = dict_get (a_idRegActuacion a)) stored of
                 Some e \<Rightarrow> r = e
               | None \<Rightarrow> r \<in> set nuevas \<and> (\<exists>n. r = nueva_actuacion fromiso n proceso a))
       acts r2"
      using Cons.IH [OF l]
      by (rule list_all2_mono) (auto simp: e split: option.splits)
    then show ?thesis using None e by auto
  next
    case (Some e)
    obtain n2 r2 where l: "actuaciones_loop fromiso stored proceso k acts = (n2, r2)"
      by (cases "actuaciones_loop fromiso stored proceso k acts")
    have eq: "nuevas = n2" "res = e # r2" using Cons.prems Some l by simp_all
    show ?thesis unfolding eq using Cons.IH [OF l] Some by simp
  qed
qed

lemma loop_new_subset:
  "actuaciones_loop fromiso stored proceso k acts = (nuevas, res) \<Longrightarrow> set nuevas \<subseteq> set res"
proof (induction acts arbitrary: k nuevas res)
  case Nil
  then show ?case by simp
next
  case (Cons a acts)
  show ?case
  proof (cases "find (\<lambda>r. id_reg_actuacion r = dict_get (a_idRegActuacion a)) stored")
    case None
    obtain n2 r2 where l: "actuaciones_loop fromiso stored proceso (Suc k) acts = (n2, r2)"
      by (cases "actuaciones_loop fromiso stored proceso (Suc k) acts")
    have "nuevas = nueva_actuacion fromiso k proceso a # n2"
      "res = nueva_actuacion fromiso k proceso a # r2"
      using Cons.prems None l by (simp_all add: Let_def)
    then show ?thesis using Cons.IH [OF l] by auto
  next
    case (Some e)
    obtain n2 r2 where l: "actuaciones_loop fromiso stored proceso k acts = (n2, r2)"
      by (cases "actuaciones_loop fromiso stored proceso k acts")
    have "nuevas = n2" "res = e # r2" using Cons.prems Some l by simp_all
    then show ?thesis using Cons.IH [OF l] by auto
  qed
qed

lemma loop_all_found:
  "\<forall>a \<in> set acts. find (\<lambda>r. id_reg_actuacion r = dict_get (a_idRegActuacion a)) stored \<noteq> None
   \<Longrightarrow> actuaciones_loop fromiso stored proceso k acts =
        ([], map (\<lambda>a. the (find (\<lambda>r. id_reg_actuacion r = dict_get (a_idRegActuacion a))
                               stored)) acts)"
  by (induction acts) auto

lemma unique_keys_find:
  assumes "unique_keys (map key rows)" "r \<in> set rows" "key r = Some k"
  shows "find (\<lambda>x. key x = Some k) rows = Some r"
  using assms
proof (induction rows)
  case Nil
  then show ?case by simp
next
  case (Cons x rows)
  show ?case
  proof (cases "key x = Some k")
    case True
    have "Some k \<notin> set (map key rows)"
      using Cons.prems(1) True by (auto simp: unique_keys_def)
    then have "r \<notin> set rows" using Cons.prems(3) by force
    then show ?thesis using True Cons.prems(2) by simp
  next
    case False
    then have "r \<in> set rows" using Cons.prems(2,3) by auto
    moreover have "unique_keys (map key rows)"
      using Cons.prems(1) by (auto simp: unique_keys_def split: if_splits)
    ultimately show ?thesis using Cons.IH Cons.prems(3) False by simp
  qed
qed

lemma list_all2_mono_set:
  assumes "list_all2 P xs ys"
    "\<And>x y. x \<in> set xs \<Longrightarrow> y \<in> set ys \<Longrightarrow> P x y \<Longrightarrow> Q x y"
  shows "list_all2 Q xs ys"
  using assms by (induction rule: list_all2_induct) auto

lemma list_all2_eq_map:
  "list_all2 (\<lambda>a r. r = g a) xs ys \<Longrightarrow> ys = map g xs"
  by (induction xs ys rule: list_all2_induct) auto

lemma loop_new_cons:
  "actuaciones_loop fromiso stored proceso k acts = (nuevas, res) \<Longrightarrow>
   \<forall>a \<in> set acts. dict_get (a_idRegActuacion a) \<notin> set (map id_reg_actuacion stored)
      \<longrightarrow> sqlite_integer_ok (dict_get (a_consActuacion a)) \<Longrightarrow>
   \<forall>r \<in> set nuevas. sqlite_integer_ok (cons_actuacion r)"
proof (induction acts arbitrary: k nuevas res)
  case Nil
  then show ?case by simp
next
  case (Cons a acts)
  have rest: "\<forall>a \<in> set acts. dict_get (a_idRegActuacion a) \<notin> set (map id_reg_actuacion stored)
      \<longrightarrow> sqlite_integer_ok (dict_get (a_consActuacion a))"
    using Cons.prems(2) by simp
  show ?case
  proof (cases "find (\<lambda>r. id_reg_actuacion r = dict_get (a_idRegActuacion a)) stored")
    case None
    then have n: "dict_get (a_idRegActuacion a) \<notin> set (map id_reg_actuacion stored)"
      by (simp add: find_None_keys)
    then have c: "sqlite_integer_ok (dict_get (a_consActuacion a))"
      using Cons.prems(2) by simp
    obtain n2 r2 where l: "actuaciones_loop fromiso stored proceso (Suc k) acts = (n2, r2)"
      by (cases "actuaciones_loop fromiso stored proceso (Suc k) acts")
    have "nuevas = nueva_actuacion fromiso k proceso a # n2"
      using Cons.prems(1) None l by (simp add: Let_def)
    then show ?thesis using Cons.IH [OF l rest] c by (simp add: nueva_actuacion_def)
  next
    case (Some e)
    obtain n2 r2 where l: "actuaciones_loop fromiso stored proceso k acts = (n2, r2)"
      by (cases "actuaciones_loop fromiso stored proceso k acts")
    have "nuevas = n2" using Cons.prems(1) Some l by simp
    then show ?thesis using Cons.IH [OF l rest] by simp
  qed
qed

lemma insert_actuaciones_ok:
  "\<forall>r \<in> set new. sqlite_integer_ok (cons_actuacion r) \<Longrightarrow>
   unique_insert_ok (map id_reg_actuacion stored) (map id_reg_actuacion new) \<Longrightarrow>
   insert_actuaciones stored new = Inr (stored @ new)"
  by (induction new arbitrary: stored) auto

lemma guardar_actuaciones_ok:
  assumes "find (\<lambda>r. id_proceso_api r = Some id_api) (procesos db) = Some proceso"
    "actuaciones_loop fromiso (actuaciones db) proceso
       (next_id (map act_id (actuaciones db))) acts = (nuevas, res)"
    "\<forall>r \<in> set nuevas. sqlite_integer_ok (cons_actuacion r)"
    "unique_insert_ok (map id_reg_actuacion (actuaciones db)) (map id_reg_actuacion nuevas)"
  shows "guardar_actuaciones fromiso db id_api acts =
     (Inr res, db\<lparr>actuaciones := actuaciones db @ nuevas\<rparr>)"
  using assms by (simp add: guardar_actuaciones_def insert_actuaciones_ok)

lemma batch_insert_ok:
  assumes "distinct (filter (\<lambda>i. i \<noteq> None \<and> i \<notin> set stored) keys)"
    "new = filter (\<lambda>i. i \<notin> set stored) keys"
  shows "unique_insert_ok stored new" and "unique_keys new"
    and "\<forall>k \<in> set new. k \<notin> set stored"
proof -
  have f: "filter (\<lambda>k. k \<noteq> None) new = filter (\<lambda>i. i \<noteq> None \<and> i \<notin> set stored) keys"
    unfolding assms(2) by (simp add: conj_commute)
  show "unique_keys new" unfolding unique_keys_def f by (rule assms(1))
  show m: "\<forall>k \<in> set new. k \<notin> set stored" unfolding assms(2) by simp
  show "unique_insert_ok stored new"
    unfolding unique_insert_ok_iff f using assms(1) m by simp
qed

lemma new_keys_distinct:
  assumes "distinct (map act_id stored)"
    "map act_id nuevas = [next_id (map act_id stored) ..< next_id (map act_id stored) + length nuevas]"
  shows "distinct (map act_id (stored @ nuevas))"
proof -
  have "\<forall>x \<in> set (map act_id stored). x < next_id (map act_id stored)"
    by (auto intro: next_id_above)
  then have "set (map act_id stored) \<inter> set (map act_id nuevas) = {}"
    unfolding assms(2) by auto
  moreover have "distinct (map act_id nuevas)" unfolding assms(2) by simp
  ultimately show ?thesis using assms(1) by simp
qed

text \<open>
  What \<open>guardar_actuaciones\<close> guarantees. Let a stored process be given, in a store that
  keeps its constraints, and a batch in which the identifiers that are not yet stored are
  pairwise different and come with a sequence number that fits the \<^verbatim>\<open>Integer\<close> column.
  Then the call returns a list with one row for each record, in the order of the batch
  and with the record's identifier: the stored row, which is not changed, when the
  identifier is stored, and otherwise a new row that holds the sequence number, the label,
  the annotation and the document flag of the record, its four dates as \<open>parse_date\<close> reads
  them and the \<^verbatim>\<open>DateTime\<close> column gives them back, the key of the process, and no
  classification. The new rows are appended to the table with consecutive keys. No other
  table changes, and the store keeps its constraints, so no identifier occurs twice. A
  second call with the same batch changes nothing and returns rows with the same
  identifiers; they are the same rows when every record has an identifier.
\<close>

lemma actuaciones_lote_sin_repetidos:
  assumes ok: "store_ok db"
    and fp: "find (\<lambda>r. id_proceso_api r = Some id_api) (procesos db) = Some proceso"
    and batch:
      "distinct (filter (\<lambda>i. i \<noteq> None \<and> i \<notin> set (map id_reg_actuacion (actuaciones db)))
                 (map (\<lambda>a. dict_get (a_idRegActuacion a)) acts))"
    and cons:
      "\<forall>a \<in> set acts.
         dict_get (a_idRegActuacion a) \<notin> set (map id_reg_actuacion (actuaciones db))
         \<longrightarrow> sqlite_integer_ok (dict_get (a_consActuacion a))"
  shows
   "\<exists>res nuevas.
      guardar_actuaciones fromiso db id_api acts =
        (Inr res, db\<lparr>actuaciones := actuaciones db @ nuevas\<rparr>)
      \<and> map act_id nuevas =
          [next_id (map act_id (actuaciones db)) ..<
             next_id (map act_id (actuaciones db)) + length nuevas]
      \<and> list_all2
          (\<lambda>a r. id_reg_actuacion r = dict_get (a_idRegActuacion a)
             \<and> (case find (\<lambda>e. id_reg_actuacion e = dict_get (a_idRegActuacion a))
                        (actuaciones db) of
                  Some e \<Rightarrow> r = e
                | None \<Rightarrow>
                    r \<in> set nuevas
                    \<and> r = \<lparr>act_id = act_id r,
                           id_reg_actuacion = dict_get (a_idRegActuacion a),
                           cons_actuacion = dict_get (a_consActuacion a),
                           fecha_actuacion =
                             datetime_column
                               (parse_date fromiso (dict_get (a_fechaActuacion a))),
                           actuacion = dict_get (a_actuacion a),
                           anotacion = dict_get (a_anotacion a),
                           fecha_inicial =
                             datetime_column
                               (parse_date fromiso (dict_get (a_fechaInicial a))),
                           fecha_final =
                             datetime_column
                               (parse_date fromiso (dict_get (a_fechaFinal a))),
                           fecha_registro =
                             datetime_column
                               (parse_date fromiso (dict_get (a_fechaRegistro a))),
                           con_documentos =
                             Some (case a_conDocumentos a of Val b \<Rightarrow> b | _ \<Rightarrow> False),
                           proceso_id = Some (pro_id proceso),
                           nivel_urgencia = None, tipo_actuacion = None,
                           requiere_accion = Some False, justificacion = None\<rparr>))
          acts res
      \<and> set nuevas \<subseteq> set res
      \<and> store_ok (db\<lparr>actuaciones := actuaciones db @ nuevas\<rparr>)
      \<and> empresas (db\<lparr>actuaciones := actuaciones db @ nuevas\<rparr>) = empresas db
      \<and> procesos (db\<lparr>actuaciones := actuaciones db @ nuevas\<rparr>) = procesos db
      \<and> (\<exists>res2.
            guardar_actuaciones fromiso (db\<lparr>actuaciones := actuaciones db @ nuevas\<rparr>)
              id_api acts
            = (Inr res2, db\<lparr>actuaciones := actuaciones db @ nuevas\<rparr>)
            \<and> map id_reg_actuacion res2 = map id_reg_actuacion res
            \<and> ((\<forall>a \<in> set acts. dict_get (a_idRegActuacion a) \<noteq> None) \<longrightarrow> res2 = res))"
proof -
  let ?stored = "actuaciones db"
  let ?key = "\<lambda>a. dict_get (a_idRegActuacion a)"
  obtain nuevas res where
    l: "actuaciones_loop fromiso ?stored proceso (next_id (map act_id ?stored)) acts
        = (nuevas, res)"
    by (cases "actuaciones_loop fromiso ?stored proceso (next_id (map act_id ?stored)) acts")
  let ?db' = "db\<lparr>actuaciones := ?stored @ nuevas\<rparr>"
  let ?stored' = "?stored @ nuevas"
  let ?row = "\<lambda>a r. id_reg_actuacion r = dict_get (a_idRegActuacion a)
             \<and> (case find (\<lambda>e. id_reg_actuacion e = dict_get (a_idRegActuacion a))
                        (actuaciones db) of
                  Some e \<Rightarrow> r = e
                | None \<Rightarrow>
                    r \<in> set nuevas
                    \<and> r = \<lparr>act_id = act_id r,
                           id_reg_actuacion = dict_get (a_idRegActuacion a),
                           cons_actuacion = dict_get (a_consActuacion a),
                           fecha_actuacion =
                             datetime_column
                               (parse_date fromiso (dict_get (a_fechaActuacion a))),
                           actuacion = dict_get (a_actuacion a),
                           anotacion = dict_get (a_anotacion a),
                           fecha_inicial =
                             datetime_column
                               (parse_date fromiso (dict_get (a_fechaInicial a))),
                           fecha_final =
                             datetime_column
                               (parse_date fromiso (dict_get (a_fechaFinal a))),
                           fecha_registro =
                             datetime_column
                               (parse_date fromiso (dict_get (a_fechaRegistro a))),
                           con_documentos =
                             Some (case a_conDocumentos a of Val b \<Rightarrow> b | _ \<Rightarrow> False),
                           proceso_id = Some (pro_id proceso),
                           nivel_urgencia = None, tipo_actuacion = None,
                           requiere_accion = Some False, justificacion = None\<rparr>)"
  have newids: "map id_reg_actuacion nuevas =
      filter (\<lambda>i. i \<notin> set (map id_reg_actuacion ?stored)) (map ?key acts)"
    by (rule loop_new_ids [OF l])
  note b = batch_insert_ok [OF batch newids]
  have fits: "\<forall>r \<in> set nuevas. sqlite_integer_ok (cons_actuacion r)"
    by (rule loop_new_cons [OF l cons])
  have first: "guardar_actuaciones fromiso db id_api acts = (Inr res, ?db')"
    by (rule guardar_actuaciones_ok [OF fp l fits b(1)])
  have keys: "map act_id nuevas =
          [next_id (map act_id ?stored) ..< next_id (map act_id ?stored) + length nuevas]"
    by (rule loop_new_keys [OF l])
  have ids: "map id_reg_actuacion res = map ?key acts" by (rule loop_ids [OF l])
  have rows0: "list_all2
       (\<lambda>a r. case find (\<lambda>e. id_reg_actuacion e = ?key a) ?stored of
                 Some e \<Rightarrow> r = e
               | None \<Rightarrow> r \<in> set nuevas \<and> (\<exists>n. r = nueva_actuacion fromiso n proceso a))
       acts res"
    by (rule loop_rows [OF l])
  have row: "?row a r"
    if "case find (\<lambda>e. id_reg_actuacion e = ?key a) ?stored of
                 Some e \<Rightarrow> r = e
               | None \<Rightarrow> r \<in> set nuevas \<and> (\<exists>n. r = nueva_actuacion fromiso n proceso a)"
    for a r
  proof (cases "find (\<lambda>e. id_reg_actuacion e = ?key a) ?stored")
    case (Some e)
    then show ?thesis using that find_Some_mem [OF Some] by simp
  next
    case None
    with that have rn: "r \<in> set nuevas"
      and ex: "\<exists>n. r = nueva_actuacion fromiso n proceso a"
      by simp_all
    from ex obtain n where r: "r = nueva_actuacion fromiso n proceso a" by blast
    have c: "column_default False (dict_get_default (a_conDocumentos a) False)
             = Some (case a_conDocumentos a of Val b \<Rightarrow> b | _ \<Rightarrow> False)"
      by (cases "a_conDocumentos a") simp_all
    show ?thesis using None rn unfolding r by (simp add: nueva_actuacion_def c)
  qed
  have rows: "list_all2 ?row acts res"
    using rows0 by (rule list_all2_mono) (rule row)
  have sub: "set nuevas \<subseteq> set res" by (rule loop_new_subset [OF l])
  have uk: "unique_keys (map id_reg_actuacion ?stored')"
    using ok b(2,3) by (simp add: store_ok_def unique_keys_append)
  have ok': "store_ok ?db'"
    using ok uk new_keys_distinct [OF _ keys]
    by (simp add: store_ok_def)
  have fp': "find (\<lambda>r. id_proceso_api r = Some id_api) (procesos ?db') = Some proceso"
    using fp by simp
  let ?g = "\<lambda>a. the (find (\<lambda>r. id_reg_actuacion r = ?key a) ?stored')"
  have found: "\<forall>a \<in> set acts. find (\<lambda>r. id_reg_actuacion r = ?key a) ?stored' \<noteq> None"
  proof
    fix a assume a: "a \<in> set acts"
    have "?key a \<in> set (map id_reg_actuacion ?stored')"
    proof (cases "?key a \<in> set (map id_reg_actuacion ?stored)")
      case True
      then show ?thesis by auto
    next
      case False
      then have "?key a \<in> set (map id_reg_actuacion nuevas)"
        unfolding newids using a by simp
      then show ?thesis by auto
    qed
    then show "find (\<lambda>r. id_reg_actuacion r = ?key a) ?stored' \<noteq> None"
      using find_None_keys [of id_reg_actuacion "?key a" ?stored'] by blast
  qed
  have st: "actuaciones ?db' = ?stored'" by simp
  have l2: "actuaciones_loop fromiso (actuaciones ?db') proceso
       (next_id (map act_id (actuaciones ?db'))) acts = ([], map ?g acts)"
    unfolding st by (rule loop_all_found [OF found])
  have c2: "\<forall>r \<in> set ([]::Actuacion list). sqlite_integer_ok (cons_actuacion r)"
    by simp
  have u2: "unique_insert_ok (map id_reg_actuacion (actuaciones ?db')) (map id_reg_actuacion [])"
    by simp
  have same_db: "?db'\<lparr>actuaciones := actuaciones ?db' @ []\<rparr> = ?db'" by simp
  have second: "guardar_actuaciones fromiso ?db' id_api acts = (Inr (map ?g acts), ?db')"
    using guardar_actuaciones_ok [OF fp' l2 c2 u2] unfolding same_db .
  have gid: "id_reg_actuacion (?g a) = ?key a" if "a \<in> set acts" for a
  proof (cases "find (\<lambda>r. id_reg_actuacion r = ?key a) ?stored'")
    case None
    then show ?thesis using found that by simp
  next
    case (Some x)
    then show ?thesis using find_Some_mem [OF Some] by simp
  qed
  have ids2: "map id_reg_actuacion (map ?g acts) = map id_reg_actuacion res"
    unfolding ids using gid by (simp only: map_map map_eq_conv o_def) blast
  have same: "map ?g acts = res" if nn: "\<forall>a \<in> set acts. ?key a \<noteq> None"
  proof -
    have "list_all2 (\<lambda>a r. r = ?g a) acts res"
      using rows
    proof (rule list_all2_mono_set)
      fix a r
      assume a: "a \<in> set acts" and r: "?row a r"
      obtain kk where kk: "?key a = Some kk" using nn a by auto
      have rk: "id_reg_actuacion r = Some kk" using r kk by simp
      show "r = ?g a"
      proof (cases "find (\<lambda>e. id_reg_actuacion e = ?key a) ?stored")
        case (Some e)
        then have "r = e" using r by simp
        then show ?thesis using Some by (simp add: find_append_rows)
      next
        case None
        then have rn: "r \<in> set nuevas" using r by simp
        have "unique_keys (map id_reg_actuacion nuevas)" by (rule b(2))
        then have "find (\<lambda>x. id_reg_actuacion x = Some kk) nuevas = Some r"
          using rn rk by (rule unique_keys_find)
        then show ?thesis using None kk by (simp add: find_append_rows)
      qed
    qed
    then show ?thesis by (rule list_all2_eq_map [symmetric])
  qed
  have second': "\<exists>res2.
            guardar_actuaciones fromiso ?db' id_api acts = (Inr res2, ?db')
            \<and> map id_reg_actuacion res2 = map id_reg_actuacion res
            \<and> ((\<forall>a \<in> set acts. dict_get (a_idRegActuacion a) \<noteq> None) \<longrightarrow> res2 = res)"
    using second ids2 same by blast
  have frame: "empresas ?db' = empresas db" "procesos ?db' = procesos db" by simp_all
  show ?thesis
    apply (rule exI [of _ res])
    apply (rule exI [of _ nuevas])
    apply (intro conjI)
           apply (rule first)
          apply (rule keys)
         apply (rule rows)
        apply (rule sub)
       apply (rule ok')
      apply (rule frame(1))
     apply (rule frame(2))
    apply (rule second')
    done
qed

text \<open>
  The batch \<open>lote_ejemplo\<close>, two records with the new identifiers A1 and A2, saved for the
  process of \<open>db_ejemplo\<close>: both rows are inserted, with the keys 1 and 2, and returned in
  the order of the batch.
\<close>

lemma actuaciones_lote_ejemplo:
  "guardar_actuaciones fromiso_none db_ejemplo ''P1'' lote_ejemplo =
     (Inr [nueva_actuacion fromiso_none 1 proceso_ejemplo actuacion_ejemplo,
           nueva_actuacion fromiso_none 2 proceso_ejemplo
             (actuacion_ejemplo\<lparr>a_idRegActuacion := Val ''A2''\<rparr>)],
      db_ejemplo\<lparr>actuaciones :=
        [nueva_actuacion fromiso_none 1 proceso_ejemplo actuacion_ejemplo,
         nueva_actuacion fromiso_none 2 proceso_ejemplo
           (actuacion_ejemplo\<lparr>a_idRegActuacion := Val ''A2''\<rparr>)]\<rparr>)"
  "cons_actuacion (nueva_actuacion fromiso_none 1 proceso_ejemplo actuacion_ejemplo) = Some 7"
  "actuacion (nueva_actuacion fromiso_none 1 proceso_ejemplo actuacion_ejemplo)
     = Some ''Fija fecha AUDIENCIA''"
  "fecha_actuacion (nueva_actuacion fromiso_none 1 proceso_ejemplo actuacion_ejemplo)
     = Some (midnight 2024 3 15)"
  "proceso_id (nueva_actuacion fromiso_none 1 proceso_ejemplo actuacion_ejemplo) = Some 1"
proof -
  have d: "parse_date fromiso_none (Some ''2024-03-15'') = Some (midnight 2024 3 15)"
    by (simp add: parse_date_def is_digit_def is_nonzero_digit_def digit_val_def
        days_in_month_def is_leap_def)
  show "guardar_actuaciones fromiso_none db_ejemplo ''P1'' lote_ejemplo =
     (Inr [nueva_actuacion fromiso_none 1 proceso_ejemplo actuacion_ejemplo,
           nueva_actuacion fromiso_none 2 proceso_ejemplo
             (actuacion_ejemplo\<lparr>a_idRegActuacion := Val ''A2''\<rparr>)],
      db_ejemplo\<lparr>actuaciones :=
        [nueva_actuacion fromiso_none 1 proceso_ejemplo actuacion_ejemplo,
         nueva_actuacion fromiso_none 2 proceso_ejemplo
           (actuacion_ejemplo\<lparr>a_idRegActuacion := Val ''A2''\<rparr>)]\<rparr>)"
    by (simp add: guardar_actuaciones_def db_ejemplo_def proceso_ejemplo_def
        lote_ejemplo_def actuacion_ejemplo_def nueva_actuacion_def next_id_def Let_def)
  show "cons_actuacion (nueva_actuacion fromiso_none 1 proceso_ejemplo actuacion_ejemplo)
        = Some 7"
    by (simp add: nueva_actuacion_def actuacion_ejemplo_def)
  show "actuacion (nueva_actuacion fromiso_none 1 proceso_ejemplo actuacion_ejemplo)
     = Some ''Fija fecha AUDIENCIA''"
    by (simp add: nueva_actuacion_def actuacion_ejemplo_def)
  show "fecha_actuacion (nueva_actuacion fromiso_none 1 proceso_ejemplo actuacion_ejemplo)
     = Some (midnight 2024 3 15)"
    by (simp add: nueva_actuacion_def actuacion_ejemplo_def d sqlite_datetime_midnight)
  show "proceso_id (nueva_actuacion fromiso_none 1 proceso_ejemplo actuacion_ejemplo) = Some 1"
    by (simp add: nueva_actuacion_def proceso_ejemplo_def)
qed

text \<open>
  A record with a new identifier whose sequence number is \<open>2 ^ 63\<close>: the driver cannot
  bind it to the \<^verbatim>\<open>Integer\<close> column, the commit raises \<^verbatim>\<open>OverflowError\<close> and nothing is
  saved.
\<close>

lemma actuaciones_lote_desborde:
  "guardar_actuaciones fromiso_none db_ejemplo ''P1''
     [actuacion_ejemplo\<lparr>a_consActuacion := Val (2 ^ 63)\<rparr>]
   = (Inl OverflowError, db_ejemplo)"
  by (simp add: guardar_actuaciones_def db_ejemplo_def proceso_ejemplo_def
      actuacion_ejemplo_def nueva_actuacion_def Let_def)

text \<open>
  C2. Saving a batch does not always insert the absent identifiers and return the rows:
  \<open>guardar_actuaciones\<close> raises \<^verbatim>\<open>IntegrityError\<close> on a batch that holds twice an
  identifier that is not yet stored. The session is made with \<^verbatim>\<open>autoflush=False\<close>, so the
  query of the second record does not see the object added for the first; the loop adds
  two objects with the identifier A1, the commit inserts the first, the \<^verbatim>\<open>unique\<close>
  constraint of \<^verbatim>\<open>id_reg_actuacion\<close> rejects the second, and nothing catches the error: no
  row is returned and none is saved.
\<close>

theorem actuaciones_lote_repetido_raises:
  "guardar_actuaciones fromiso_none db_ejemplo ''P1'' [actuacion_ejemplo, actuacion_ejemplo]
   = (Inl IntegrityError, db_ejemplo)"
  by (simp add: guardar_actuaciones_def db_ejemplo_def proceso_ejemplo_def
      actuacion_ejemplo_def nueva_actuacion_def Let_def)

end
